theory Spec2Isabelle
  imports Complex_Main "HOL-Library.AList" "HOL-Library.Char_ord" "HOL-Library.List_Lexorder"
begin

section \<open>The simulation-run database of \<open>simulation/model/eval.py\<close>\<close>

subsection \<open>Directories, job records and the state of the file system\<close>

text \<open>
  A factor id names one perturbed parameter: its index and the multiple of the step size
  it was moved by.  The source formats it with one of two templates
  (\<open>DATABASE_PARTIAL_DERIVATIVE_FACTOR_ID_INT\<close> for an integral multiplier,
  \<open>..._FLOAT\<close> otherwise); the templates are constants outside the source tree, so a
  factor id is kept as the template chosen and the two values formatted into it.
\<close>

datatype factor_id = Factor_Id_Int int int | Factor_Id_Float int real

text \<open>
  The run database lives in a directory tree.  A run directory is the join of a spinup
  directory and the run directory name built from a run index (\<open>DATABASE_RUN_DIRNAME\<close>);
  \<open>previous_run_dir\<close> reads the index back from the name.  The name format and the index
  parser are outside the source tree, so a run directory carries its spinup directory and
  its index, a partial-derivative directory its derivative directory and its factor ids,
  and every other directory only its path.  Rewriting the root of a path to the
  environment variable (\<open>start_run\<close>) names the same directory and is not modelled.
\<close>

datatype dir =
    Run_Dir string nat
  | Partial_Derivative_Dir string "factor_id list"
  | Other_Dir string

text \<open>
  The exceptions of the modelled code.  \<open>ValueError\<close> carries its message.
  \<open>NoRunIndex\<close> stands for whatever the index parser does on a name that is not a run
  directory name; the modelled code never asks for the predecessor of such a directory.
  \<open>Unmodelled\<close> marks inputs on which the source's result is decided by numpy alone
  (arrays of different shapes, a division by zero giving an IEEE infinity).
\<close>

datatype error =
    ValueError string
  | JobOptionFileError dir
  | FileExistsError dir
  | OSError dir
  | AssertionError
  | IndexError
  | TypeError
  | NoRunIndex dir
  | Unmodelled

text \<open>
  The persisted metadata of one job (\<open>Metos3D_Job\<close>): the achieved years and tolerance
  and the tracer input files the job was started from, each as its directory and file
  name.  Only comparisons are made on tolerances, so a (finite) floating-point tolerance
  is read as the real number it denotes.  Years are integers.
\<close>

record job =
  last_year :: int
  last_tolerance :: real
  model_tracer_input_files :: "(dir \<times> string) list"

record spinup_options =
  years :: int
  tolerance :: real
  combination :: string
  match_type :: string

datatype warning =
    Max_Spinup_Years_Reached dir real int
  | Trajectory_Dir_Not_Removed dir

text \<open>The arguments of one \<open>start_run\<close> call, as handed to the batch system.\<close>

record submission =
  sub_output_path :: dir
  sub_model_parameters :: "real list"
  sub_years :: int
  sub_tolerance :: real
  sub_initial_constant_concentrations :: bool
  sub_tracer_input_files :: "(dir \<times> string) list"
  sub_total_concentration_factor :: real
  sub_write_trajectory :: bool
  sub_wait_until_finished :: bool

text \<open>
  The state the code works on: the directories that exist, the job records that load,
  the search paths whose listing fails with \<open>OSError\<close>, the directories whose removal
  fails with \<open>OSError\<close>, and three logs: the jobs submitted, the directories purged
  and the warnings emitted.
\<close>

record database =
  dirs :: "dir list"
  jobs :: "dir \<rightharpoonup> job"
  unreadable :: "string list"
  undeletable :: "dir list"
  submitted :: "submission list"
  purged :: "dir list"
  emitted :: "warning list"

text \<open>
  The fields of the model object and of its options that the modelled methods read.
  The properties \<open>spinup_dir\<close>, \<open>parameters\<close>, \<open>initial_concentration_files\<close> and
  \<open>derivative_dir\<close> are answered by the parameter store, which is outside the source
  tree: each is a field here.  So is \<open>closest_index\<close>, the store's answer for the index
  of the closest parameter set, and \<open>spinup_dir_of\<close>, the spinup directory of the
  parameter set with a given index.  \<open>default_match_type\<close> is the match type of a
  \<open>SpinupOptions\<close> built without one, \<open>precision\<close> is
  \<open>DATABASE_PARTIAL_DERIVATIVE_FACTOR_ID_FLOAT_PRECISION\<close>, \<open>tmp_dir\<close> is
  \<open>DATABASE_TMP_DIR\<close>, and \<open>mkdtemp\<close> is the name \<open>tempfile.mkdtemp\<close> picks.
\<close>

record model =
  model_name :: string
  tracers :: "string list"
  model_spinup_max_years :: int
  start_from_closest_parameters :: bool
  spinup_dir :: string
  closest_index :: "nat option"
  spinup_dir_of :: "nat \<Rightarrow> string"
  use_constant_concentrations :: bool
  initial_concentration_files :: "(dir \<times> string) list"
  options_parameters :: "real list"
  parameters :: "real list"
  model_spinup_options :: spinup_options
  default_match_type :: string
  tmp_dir :: "string option"
  mkdtemp :: "database \<Rightarrow> dir \<Rightarrow> string"
  derivative_dir :: string
  derivative_years :: int
  step_size :: real
  parameters_typical_values :: "real list"
  parameters_len :: nat
  precision :: nat

text \<open>
  The external simulation: what a submitted job achieves (years, tolerance), given the
  state it starts from.  The model takes the outcome at submission; the time a job runs,
  and a job that never finishes, are not modelled.
\<close>

type_synonym simulation = "database \<Rightarrow> submission \<Rightarrow> int \<times> real"

subsection \<open>Reading job records\<close>

text \<open>\<open>Metos3D_Job(run_dir, force_load=True)\<close>: a missing or malformed record raises.\<close>

definition load_job :: "database \<Rightarrow> dir \<Rightarrow> error + job" where
  "load_job db run_dir =
     (case jobs db run_dir of None \<Rightarrow> Inl (JobOptionFileError run_dir) | Some j \<Rightarrow> Inr j)"

fun previous_run_dir :: "dir \<Rightarrow> error + dir option" where
  "previous_run_dir (Run_Dir spinup run_index) =
     (if run_index > 0 then Inr (Some (Run_Dir spinup (run_index - 1))) else Inr None)"
| "previous_run_dir (Partial_Derivative_Dir p ids) = Inl (NoRunIndex (Partial_Derivative_Dir p ids))"
| "previous_run_dir (Other_Dir p) = Inl (NoRunIndex (Other_Dir p))"

fun run_index_of :: "dir \<Rightarrow> nat" where
  "run_index_of (Run_Dir spinup run_index) = run_index"
| "run_index_of (Partial_Derivative_Dir p ids) = 0"
| "run_index_of (Other_Dir p) = 0"

text \<open>
  The loop of \<open>real_years\<close>, with the running sum as accumulator: load the job, add its
  years, and go on with the predecessor while there is one.
\<close>

function real_years_loop :: "database \<Rightarrow> dir \<Rightarrow> bool \<Rightarrow> int \<Rightarrow> error + int" where
  "real_years_loop db run_dir include_previous_runs acc =
     (case load_job db run_dir of
        Inl e \<Rightarrow> Inl e
      | Inr j \<Rightarrow>
          (let acc' = acc + last_year j in
           if include_previous_runs then
             (case previous_run_dir run_dir of
                Inl e \<Rightarrow> Inl e
              | Inr None \<Rightarrow> Inr acc'
              | Inr (Some d) \<Rightarrow> real_years_loop db d include_previous_runs acc')
           else Inr acc'))"
  by pat_completeness auto
termination
proof (relation "measure (\<lambda>(db, run_dir, incl, acc). run_index_of run_dir)")
  show "wf (measure (\<lambda>(db, run_dir, incl, acc). run_index_of run_dir))" by simp
next
  fix db :: database and run_dir :: dir and include_previous_runs :: bool and acc :: int
    and b x xa x2 xb
  assume "previous_run_dir run_dir = Inr xb" "xb = Some x2"
  then show "((db, x2, include_previous_runs, xa), (db, run_dir, include_previous_runs, acc))
       \<in> measure (\<lambda>(db, run_dir, incl, acc). run_index_of run_dir)"
    by (cases run_dir) (auto split: if_splits)
qed

declare real_years_loop.simps [simp del]

definition real_years :: "database \<Rightarrow> dir \<Rightarrow> bool \<Rightarrow> error + int" where
  "real_years db run_dir include_previous_runs =
     real_years_loop db run_dir include_previous_runs 0"

definition real_tolerance :: "database \<Rightarrow> dir \<Rightarrow> error + real" where
  "real_tolerance db run_dir =
     (case load_job db run_dir of Inl e \<Rightarrow> Inl e | Inr j \<Rightarrow> Inr (last_tolerance j))"

subsection \<open>Matching a run against spinup options\<close>

definition combination_unknown :: "string \<Rightarrow> string" where
  "combination_unknown c = ''Combination '' @ [CHR 0x22] @ c @ [CHR 0x22] @ '' unknown.''"

text \<open>
  \<open>is_run_matching_options\<close> returns the verdict together with the warnings it emits.
  Both job reads come before the combination keyword is looked at, as in the source.
\<close>

definition is_run_matching_options ::
  "model \<Rightarrow> database \<Rightarrow> dir option \<Rightarrow> spinup_options \<Rightarrow> bool \<Rightarrow> error + (bool \<times> warning list)"
where
  "is_run_matching_options m db run_dir opts include_previous_runs =
     (case run_dir of
        None \<Rightarrow> Inr (False, [])
      | Some d \<Rightarrow>
          (case real_years db d include_previous_runs of
             Inl e \<Rightarrow> Inl e
           | Inr run_years \<Rightarrow>
               (case real_tolerance db d of
                  Inl e \<Rightarrow> Inl e
                | Inr run_tolerance \<Rightarrow>
                    if combination opts = ''and'' then
                      (let is_matching =
                             ((run_years \<ge> years opts \<and> run_tolerance \<le> tolerance opts)
                              \<or> run_years \<ge> model_spinup_max_years m)
                       in Inr (is_matching,
                               if is_matching \<and> run_tolerance > tolerance opts
                               then [Max_Spinup_Years_Reached d (tolerance opts)
                                       (model_spinup_max_years m)]
                               else []))
                    else if combination opts = ''or'' then
                      Inr (run_years \<ge> years opts \<or> run_tolerance \<le> tolerance opts, [])
                    else Inl (ValueError (combination_unknown (combination opts))))))"


subsection \<open>Run directories\<close>

definition is_run_dir_in :: "string \<Rightarrow> dir \<Rightarrow> bool" where
  "is_run_dir_in search_path d =
     (case d of Run_Dir spinup run_index \<Rightarrow> spinup = search_path | _ \<Rightarrow> False)"

text \<open>A search path that cannot be listed gives the empty list (the \<open>OSError\<close> is caught).\<close>

definition run_dirs :: "database \<Rightarrow> string \<Rightarrow> dir list" where
  "run_dirs db search_path =
     (if search_path \<in> set (unreadable db) then []
      else filter (is_run_dir_in search_path) (dirs db))"

definition last_run_dir :: "database \<Rightarrow> string \<Rightarrow> error + dir option" where
  "last_run_dir db search_path =
     (let last_run_index = int (length (run_dirs db search_path)) - 1 in
      if last_run_index \<ge> 0 then
        (let d = Run_Dir search_path (nat last_run_index) in
         case load_job db d of Inl e \<Rightarrow> Inl e | Inr j \<Rightarrow> Inr (Some d))
      else Inr None)"

text \<open>\<open>os.makedirs\<close> with \<open>exist_ok=True\<close> and with \<open>exist_ok=False\<close>.\<close>

definition makedirs_exist_ok :: "database \<Rightarrow> dir \<Rightarrow> database" where
  "makedirs_exist_ok db d = (if d \<in> set (dirs db) then db else db\<lparr>dirs := dirs db @ [d]\<rparr>)"

definition makedirs :: "database \<Rightarrow> dir \<Rightarrow> error + database" where
  "makedirs db d =
     (if d \<in> set (dirs db) then Inl (FileExistsError d) else Inr (db\<lparr>dirs := dirs db @ [d]\<rparr>))"

definition make_new_run_dir :: "database \<Rightarrow> string \<Rightarrow> error + (dir \<times> database)" where
  "make_new_run_dir db output_path =
     (let db1 = makedirs_exist_ok db (Other_Dir output_path);
          next_run_index = length (run_dirs db1 output_path);
          run_dir = Run_Dir output_path next_run_index
      in case makedirs db1 run_dir of Inl e \<Rightarrow> Inl e | Inr db2 \<Rightarrow> Inr (run_dir, db2))"

subsection \<open>Starting and finishing runs\<close>

text \<open>
  \<open>wait_until_run_finished\<close> loads the job record, waits, and sets the read-only flags;
  of these only the load is visible in the modelled state.
\<close>

definition wait_until_run_finished :: "database \<Rightarrow> dir \<Rightarrow> error + database" where
  "wait_until_run_finished db run_dir =
     (case load_job db run_dir of Inl e \<Rightarrow> Inl e | Inr j \<Rightarrow> Inr db)"

definition start_run :: "simulation \<Rightarrow> database \<Rightarrow> submission \<Rightarrow> error + database" where
  "start_run sim db sub =
     (let achieved = sim db sub;
          j = \<lparr>last_year = fst achieved, last_tolerance = snd achieved,
               model_tracer_input_files = sub_tracer_input_files sub\<rparr>;
          db1 = db\<lparr>jobs := (jobs db)(sub_output_path sub \<mapsto> j), submitted := submitted db @ [sub]\<rparr>
      in if sub_wait_until_finished sub then wait_until_run_finished db1 (sub_output_path sub)
         else Inr db1)"

text \<open>
  The tracer output files of a run: one file \<open><tracer>_output.petsc\<close> per tracer of
  the model, in the run's directory (the names \<open>_df\<close> builds for the spinup run).
\<close>

definition tracer_output_files :: "model \<Rightarrow> dir \<Rightarrow> (dir \<times> string) list" where
  "tracer_output_files m run_dir = map (\<lambda>tracer. (run_dir, tracer @ ''_output.petsc'')) (tracers m)"

definition warn :: "database \<Rightarrow> warning list \<Rightarrow> database" where
  "warn db ws = db\<lparr>emitted := emitted db @ ws\<rparr>"

subsection \<open>Resolving the run for given spinup options\<close>

text \<open>
  The loop of match type \<open>equal_or_nearest_better\<close>: step to the predecessor while the
  predecessor matches.  The branch for a matching run without a directory is never
  reached, since no directory never matches.
\<close>

function nearest_better_loop ::
  "model \<Rightarrow> database \<Rightarrow> dir \<Rightarrow> spinup_options \<Rightarrow> error + (dir \<times> database)"
where
  "nearest_better_loop m db run_dir opts =
     (case previous_run_dir run_dir of
        Inl e \<Rightarrow> Inl e
      | Inr previous \<Rightarrow>
          (case is_run_matching_options m db previous opts True of
             Inl e \<Rightarrow> Inl e
           | Inr (is_matching, ws) \<Rightarrow>
               if is_matching then
                 (case previous of
                    None \<Rightarrow> Inl TypeError
                  | Some d \<Rightarrow> nearest_better_loop m (warn db ws) d opts)
               else Inr (run_dir, warn db ws)))"
  by pat_completeness auto
termination
proof (relation "measure (\<lambda>(m, db, run_dir, opts). run_index_of run_dir)")
  show "wf (measure (\<lambda>(m, db, run_dir, opts). run_index_of run_dir))" by simp
next
  fix m :: model and db :: database and run_dir :: dir and opts :: spinup_options
    and previous :: "dir option" and d :: dir and ws :: "warning list"
  assume "previous_run_dir run_dir = Inr previous" "previous = Some d"
  then show "((m, warn db ws, d, opts), (m, db, run_dir, opts))
       \<in> measure (\<lambda>(m, db, run_dir, opts). run_index_of run_dir)"
    by (cases run_dir) (auto split: if_splits)
qed

declare nearest_better_loop.simps [simp del]

text \<open>
  \<open>closest_parameter_set_dir\<close>, as the index of the parameter set: the closest index is
  dropped when its spinup directory has no run.  Without a closest index there is no
  directory to search, and the search is taken to find no run.
\<close>

definition spinup_dir_with_index :: "model \<Rightarrow> nat option \<Rightarrow> string option" where
  "spinup_dir_with_index m index =
     (case index of Some i \<Rightarrow> Some (spinup_dir_of m i) | None \<Rightarrow> None)"

definition closest_parameter_set_dir :: "model \<Rightarrow> database \<Rightarrow> error + nat option" where
  "closest_parameter_set_dir m db =
     (case spinup_dir_with_index m (closest_index m) of
        None \<Rightarrow> Inr None
      | Some search_path \<Rightarrow>
          (case last_run_dir db search_path of
             Inl e \<Rightarrow> Inl e
           | Inr None \<Rightarrow> Inr None
           | Inr (Some d) \<Rightarrow> Inr (closest_index m)))"

text \<open>
  \<open>closest_spinup_dir\<close> joins the closest parameter set directory with the spinup
  directory name; \<open>os.path.join\<close> raises \<open>TypeError\<close> when that directory is \<open>None\<close>.
\<close>

definition closest_spinup_dir :: "model \<Rightarrow> database \<Rightarrow> error + string" where
  "closest_spinup_dir m db =
     (case closest_parameter_set_dir m db of
        Inl e \<Rightarrow> Inl e
      | Inr None \<Rightarrow> Inl TypeError
      | Inr (Some i) \<Rightarrow> Inr (spinup_dir_of m i))"

text \<open>
  With no run of its own and \<open>start_from_closest_parameters\<close> set, the last run of the
  closest parameter set is taken instead.
\<close>

definition closest_last_run_dir ::
  "model \<Rightarrow> database \<Rightarrow> dir option \<Rightarrow> error + dir option"
where
  "closest_last_run_dir m db last_run =
     (if last_run = None \<and> start_from_closest_parameters m then
        (case closest_spinup_dir m db of
           Inl e \<Rightarrow> Inl e
         | Inr closest \<Rightarrow> last_run_dir db closest)
      else Inr last_run)"

definition finish_last_run :: "database \<Rightarrow> dir option \<Rightarrow> error + database" where
  "finish_last_run db last_run =
     (case last_run of None \<Rightarrow> Inr db | Some d \<Rightarrow> wait_until_run_finished db d)"

text \<open>The branch for combination \<open>or\<close>: a new run directory and a job that is waited for.\<close>

definition start_new_run ::
  "model \<Rightarrow> simulation \<Rightarrow> database \<Rightarrow> dir option \<Rightarrow> spinup_options \<Rightarrow> error + (dir \<times> database)"
where
  "start_new_run m sim db last_run opts =
     (case make_new_run_dir db (spinup_dir m) of
        Inl e \<Rightarrow> Inl e
      | Inr (run_dir, db1) \<Rightarrow>
          (case last_run of
             Some last_dir \<Rightarrow>
               (case real_years db1 last_dir True of
                  Inl e \<Rightarrow> Inl e
                | Inr last_years \<Rightarrow>
                    (case load_job db1 last_dir of
                       Inl e \<Rightarrow> Inl e
                     | Inr j \<Rightarrow>
                         (case start_run sim db1
                                 \<lparr>sub_output_path = run_dir, sub_model_parameters = parameters m,
                                  sub_years = years opts - last_years,
                                  sub_tolerance = tolerance opts,
                                  sub_initial_constant_concentrations = False,
                                  sub_tracer_input_files = tracer_output_files m last_dir,
                                  sub_total_concentration_factor = 1,
                                  sub_write_trajectory = False, sub_wait_until_finished = True\<rparr> of
                            Inl e \<Rightarrow> Inl e
                          | Inr db2 \<Rightarrow> Inr (run_dir, db2))))
           | None \<Rightarrow>
               (case start_run sim db1
                       \<lparr>sub_output_path = run_dir, sub_model_parameters = options_parameters m,
                        sub_years = years opts, sub_tolerance = tolerance opts,
                        sub_initial_constant_concentrations = use_constant_concentrations m,
                        sub_tracer_input_files =
                          (if use_constant_concentrations m then []
                           else initial_concentration_files m),
                        sub_total_concentration_factor = 1,
                        sub_write_trajectory = False, sub_wait_until_finished = True\<rparr> of
                  Inl e \<Rightarrow> Inl e
                | Inr db2 \<Rightarrow> Inr (run_dir, db2))))"

definition years_only :: "model \<Rightarrow> spinup_options \<Rightarrow> spinup_options" where
  "years_only m opts =
     \<lparr>years = years opts, tolerance = 0, combination = ''or'',
      match_type = default_match_type m\<rparr>"

definition tolerance_only :: "model \<Rightarrow> spinup_options \<Rightarrow> spinup_options" where
  "tolerance_only m opts =
     \<lparr>years = model_spinup_max_years m, tolerance = tolerance opts, combination = ''or'',
      match_type = default_match_type m\<rparr>"

function matching_run_dir ::
  "model \<Rightarrow> simulation \<Rightarrow> database \<Rightarrow> spinup_options \<Rightarrow> error + (dir \<times> database)"
where
  "matching_run_dir m sim db opts =
     (case last_run_dir db (spinup_dir m) of
        Inl e \<Rightarrow> Inl e
      | Inr last_run \<Rightarrow>
          (case is_run_matching_options m db last_run opts True of
             Inl e \<Rightarrow> Inl e
           | Inr (is_matching, ws) \<Rightarrow>
               if is_matching then
                 (case last_run of
                    None \<Rightarrow> Inl TypeError
                  | Some run_dir \<Rightarrow>
                      if match_type opts = ''equal_or_nearest_better''
                      then nearest_better_loop m (warn db ws) run_dir opts
                      else Inr (run_dir, warn db ws))
               else
                 (case closest_last_run_dir m (warn db ws) last_run of
                    Inl e \<Rightarrow> Inl e
                  | Inr last_run' \<Rightarrow>
                      (case finish_last_run (warn db ws) last_run' of
                         Inl e \<Rightarrow> Inl e
                       | Inr db1 \<Rightarrow>
                           if combination opts = ''or'' then start_new_run m sim db1 last_run' opts
                           else if combination opts = ''and'' then
                             (case matching_run_dir m sim db1 (years_only m opts) of
                                Inl e \<Rightarrow> Inl e
                              | Inr (run_dir1, db2) \<Rightarrow>
                                  matching_run_dir m sim db2 (tolerance_only m opts))
                           else Inl AssertionError))))"
  by pat_completeness auto
termination
proof (relation "measure (\<lambda>(m, sim, db, opts). if combination opts = ''or'' then 0 else 1)")
qed (simp_all add: years_only_def tolerance_only_def)

declare matching_run_dir.simps [simp del]


subsection \<open>Model values\<close>

definition tracer_not_supported :: "model \<Rightarrow> string \<Rightarrow> string" where
  "tracer_not_supported m tracer =
     ''Tracer '' @ tracer @ '' is not supported for model '' @ model_name m @ ''.''"

definition check_tracers :: "model \<Rightarrow> string list option \<Rightarrow> error + string list" where
  "check_tracers m requested =
     (case requested of
        Some ts \<Rightarrow>
          (case find (\<lambda>tracer. tracer \<notin> set (tracers m)) ts of
             Some tracer \<Rightarrow> Inl (ValueError (tracer_not_supported m tracer))
           | None \<Rightarrow> Inr ts)
      | None \<Rightarrow> Inr (sort (tracers m)))"

text \<open>Removing the temporary trajectory directory; a failure is only warned about.\<close>

definition remove_trajectory_dir :: "database \<Rightarrow> dir \<Rightarrow> database" where
  "remove_trajectory_dir db d =
     (if d \<in> set (undeletable db) then warn db [Trajectory_Dir_Not_Removed d]
      else db\<lparr>dirs := removeAll d (dirs db), jobs := (jobs db)(d := None)\<rparr>)"

text \<open>
  \<open>_trajectory_with_load_function\<close>.  The load function reads a tracer's trajectory from
  the trajectory directory; the result dictionary is an association list in insertion
  order.
\<close>

definition trajectory_with_load_function ::
  "model \<Rightarrow> simulation \<Rightarrow> (database \<Rightarrow> dir \<Rightarrow> string \<Rightarrow> 'v) \<Rightarrow> database \<Rightarrow> dir \<Rightarrow> real list
     \<Rightarrow> string list option \<Rightarrow> error + ((string \<times> 'v) list \<times> database)"
where
  "trajectory_with_load_function m sim trajectory_load_function db run_dir model_params requested =
     (case check_tracers m requested of
        Inl e \<Rightarrow> Inl e
      | Inr ts \<Rightarrow>
          if length ts > 0 then
            (let db1 = (case tmp_dir m of
                          Some t \<Rightarrow> makedirs_exist_ok db (Other_Dir t) | None \<Rightarrow> db);
                 tmp = (case tmp_dir m of Some t \<Rightarrow> Other_Dir t | None \<Rightarrow> run_dir);
                 trajectory_dir = Other_Dir (mkdtemp m db1 tmp);
                 db2 = db1\<lparr>dirs := dirs db1 @ [trajectory_dir]\<rparr>
             in case load_job db2 run_dir of
                  Inl e \<Rightarrow> Inl e
                | Inr j \<Rightarrow>
                    (case start_run sim db2
                            \<lparr>sub_output_path = trajectory_dir, sub_model_parameters = model_params,
                             sub_years = 1, sub_tolerance = 0,
                             sub_initial_constant_concentrations = False,
                             sub_tracer_input_files = tracer_output_files m run_dir,
                             sub_total_concentration_factor = 1,
                             sub_write_trajectory = True, sub_wait_until_finished = True\<rparr> of
                       Inl e \<Rightarrow> Inl e
                     | Inr db3 \<Rightarrow>
                         (let trajectory_values =
                                fold (\<lambda>tracer vs.
                                        AList.update tracer
                                          (trajectory_load_function db3 trajectory_dir tracer) vs)
                                  ts [];
                              db4 = remove_trajectory_dir db3 trajectory_dir
                          in if length trajectory_values = length ts
                             then Inr (trajectory_values, db4) else Inl AssertionError)))
          else Inr ([], db))"

text \<open>\<open>_f\<close>: the run is resolved (property \<open>run_dir\<close>) before the trajectory is asked for.\<close>

definition f_values ::
  "model \<Rightarrow> simulation \<Rightarrow> (database \<Rightarrow> dir \<Rightarrow> string \<Rightarrow> 'v) \<Rightarrow> database
     \<Rightarrow> string list option \<Rightarrow> error + ((string \<times> 'v) list \<times> database)"
where
  "f_values m sim trajectory_load_function db requested =
     (case check_tracers m requested of
        Inl e \<Rightarrow> Inl e
      | Inr ts \<Rightarrow>
          (case matching_run_dir m sim db (model_spinup_options m) of
             Inl e \<Rightarrow> Inl e
           | Inr (run_dir, db1) \<Rightarrow>
               (case trajectory_with_load_function m sim trajectory_load_function db1 run_dir
                       (options_parameters m) (Some ts) of
                  Inl e \<Rightarrow> Inl e
                | Inr (f, db2) \<Rightarrow>
                    if length f = length ts then Inr (f, db2) else Inl AssertionError)))"

text \<open>
  \<open>f_all\<close>; \<open>load_trajectories_to_map\<close>, which reads a trajectory at a time dimension,
  is outside the source tree.
\<close>

definition f_all ::
  "model \<Rightarrow> simulation \<Rightarrow> (nat \<Rightarrow> database \<Rightarrow> dir \<Rightarrow> string \<Rightarrow> 'v) \<Rightarrow> database \<Rightarrow> nat
     \<Rightarrow> string list option \<Rightarrow> error + ((string \<times> 'v) list \<times> database)"
where
  "f_all m sim load_trajectories_to_map db time_dim requested =
     f_values m sim (load_trajectories_to_map time_dim) db requested"

text \<open>
  The head of \<open>_df\<close>, up to the test for no tracer.  What follows it (resolving the
  spinup run, the fan-out and fan-in driven by the finite-difference utility, which is
  outside the source tree) is the parameter \<open>derivative\<close>.
\<close>

definition df_values ::
  "model \<Rightarrow> (database \<Rightarrow> string list \<Rightarrow> error + ((string \<times> 'v) list \<times> database)) \<Rightarrow> database
     \<Rightarrow> string list option \<Rightarrow> nat option \<Rightarrow> error + ((string \<times> 'v) list \<times> database)"
where
  "df_values m derivative db requested derivative_order =
     (let order = (case derivative_order of None \<Rightarrow> 1 | Some n \<Rightarrow> n) in
      if order \<noteq> 1 \<and> order \<noteq> 2 then Inl AssertionError
      else
        (case check_tracers m requested of
           Inl e \<Rightarrow> Inl e
         | Inr ts \<Rightarrow> if length ts = 0 then Inr ([], db) else derivative db ts))"

subsection \<open>Factor ids\<close>










subsection \<open>Starting a partial-derivative run\<close>

definition partial_derivative_options :: "model \<Rightarrow> spinup_options" where
  "partial_derivative_options m =
     \<lparr>years = derivative_years m, tolerance = 0, combination = ''or'',
      match_type = default_match_type m\<rparr>"

text \<open>The directory the input files of a job lie in; all of them must lie in one.\<close>

definition partial_derivative_spinup_run_dir :: "(dir \<times> string) list \<Rightarrow> error + dir" where
  "partial_derivative_spinup_run_dir files =
     (case map fst files of
        [] \<Rightarrow> Inl IndexError
      | d # ds \<Rightarrow> if list_all (\<lambda>a. d = a) ds then Inr d else Inl AssertionError)"

text \<open>
  Probing the partial-derivative directory: a job record that does not load means no
  run yet; otherwise the run must match the derivative options, and the spinup run it
  started from must match the spinup options.
\<close>

definition matching_options ::
  "model \<Rightarrow> database \<Rightarrow> dir \<Rightarrow> error + (bool \<times> warning list)"
where
  "matching_options m db partial_derivative_dir =
     (case load_job db partial_derivative_dir of
        Inl e \<Rightarrow> Inr (False, [])
      | Inr j \<Rightarrow>
          (case partial_derivative_spinup_run_dir (model_tracer_input_files j) of
             Inl e \<Rightarrow> Inl e
           | Inr spinup_run_dir \<Rightarrow>
               (case is_run_matching_options m db (Some partial_derivative_dir)
                       (partial_derivative_options m) False of
                  Inl e \<Rightarrow> Inl e
                | Inr (derivative_matches, ws1) \<Rightarrow>
                    if derivative_matches then
                      (case is_run_matching_options m db (Some spinup_run_dir)
                              (model_spinup_options m) True of
                         Inl e \<Rightarrow> Inl e
                       | Inr (spinup_matches, ws2) \<Rightarrow> Inr (spinup_matches, ws1 @ ws2))
                    else Inr (False, ws1))))"





subsection \<open>Merging and splitting data sets\<close>

text \<open>
  A tracer's value is an array or a dictionary of named arrays (data sets).  An array
  has a dtype, a shape and its entries in row-major order; an array of shape \<open>[]\<close> is
  zero-dimensional.  The entries of an array are as many as the product of its shape.
  A dictionary is an association list in iteration order, and an assignment to a key is
  \<open>AList.update\<close>: a present key keeps its place, a new one goes to the end.  Both methods
  are modelled for \<open>concatenate_axis=0\<close>, the default; a slice is then the start and stop
  index along the first axis.
\<close>

record 'a ndarray =
  dtype :: string
  shape :: "nat list"
  entries :: "'a list"

definition valid_array :: "'a ndarray \<Rightarrow> bool" where
  "valid_array a = (length (entries a) = prod_list (shape a))"

datatype 'a tracer_value = Array "'a ndarray" | Data_Sets "(string \<times> 'a ndarray) list"

type_synonym slice = "nat \<times> nat"

text \<open>\<open>len\<close> of an array is the length of its first axis; a zero-dimensional array has none.\<close>

definition len_array :: "'a ndarray \<Rightarrow> error + nat" where
  "len_array a = (case shape a of [] \<Rightarrow> Inl TypeError | n # trailing \<Rightarrow> Inr n)"

text \<open>
  \<open>np.concatenate\<close> along the first axis.  It raises on an empty list, on a
  zero-dimensional array and on arrays that differ in the number of axes or in the shape
  behind the first axis.  Arrays of different dtypes are promoted to a common one, which
  is not modelled.
\<close>

definition concatenate :: "'a ndarray list \<Rightarrow> error + 'a ndarray" where
  "concatenate arrays =
     (case arrays of
        [] \<Rightarrow> Inl (ValueError ''need at least one array to concatenate'')
      | a # rest \<Rightarrow>
          if list_ex (\<lambda>b. dtype b \<noteq> dtype a) rest then Inl Unmodelled
          else if list_ex (\<lambda>b. shape b = []) arrays
          then Inl (ValueError ''zero-dimensional arrays cannot be concatenated'')
          else if list_ex (\<lambda>b. length (shape b) \<noteq> length (shape a)) rest
          then Inl (ValueError ''all the input arrays must have same number of dimensions'')
          else if list_ex (\<lambda>b. tl (shape b) \<noteq> tl (shape a)) rest
          then Inl (ValueError ''all the input array dimensions except for the concatenation axis must match exactly'')
          else Inr \<lparr>dtype = dtype a,
                    shape = sum_list (map (\<lambda>b. hd (shape b)) arrays) # tl (shape a),
                    entries = concat (map entries arrays)\<rparr>)"

text \<open>
  Indexing with a slice of the first axis; start and stop are clipped to the length of
  the axis.  A zero-dimensional array has no axis to index.
\<close>

definition get_slice :: "'a ndarray \<Rightarrow> slice \<Rightarrow> error + 'a ndarray" where
  "get_slice a sl =
     (case shape a of
        [] \<Rightarrow> Inl IndexError
      | n # trailing \<Rightarrow>
          (let start = min (fst sl) n; stop = min (snd sl) n; rows = stop - start;
               row_size = prod_list trailing
           in Inr \<lparr>dtype = dtype a, shape = rows # trailing,
                    entries = take (rows * row_size) (drop (start * row_size) (entries a))\<rparr>))"

fun merge_data_set_loop ::
  "(string \<times> 'a ndarray) list \<Rightarrow> nat \<Rightarrow> (string \<times> slice) list \<Rightarrow> 'a ndarray list
     \<Rightarrow> error + ((string \<times> slice) list \<times> 'a ndarray list \<times> nat)"
where
  "merge_data_set_loop [] start_index data_set_split_dict data_set_values_list =
     Inr (data_set_split_dict, data_set_values_list, start_index)"
| "merge_data_set_loop ((data_set_name, data_set_value) # rest) start_index
       data_set_split_dict data_set_values_list =
     (case len_array data_set_value of
        Inl e \<Rightarrow> Inl e
      | Inr n \<Rightarrow>
          (let end_index = start_index + n in
           merge_data_set_loop rest end_index
             (AList.update data_set_name (start_index, end_index) data_set_split_dict)
             (data_set_values_list @ [data_set_value])))"

fun merge_loop ::
  "(string \<times> 'a tracer_value) list \<Rightarrow> (string \<times> 'a ndarray) list
     \<Rightarrow> (string \<times> (string \<times> slice) list) list
     \<Rightarrow> error + ((string \<times> 'a ndarray) list \<times> (string \<times> (string \<times> slice) list) list)"
where
  "merge_loop [] tracer_merged_dict tracer_split_dict =
     Inr (tracer_merged_dict, tracer_split_dict)"
| "merge_loop ((tracer, Array v) # rest) tracer_merged_dict tracer_split_dict =
     merge_loop rest (AList.update tracer v tracer_merged_dict) tracer_split_dict"
| "merge_loop ((tracer, Data_Sets ds) # rest) tracer_merged_dict tracer_split_dict =
     (case merge_data_set_loop ds 0 [] [] of
        Inl e \<Rightarrow> Inl e
      | Inr (data_set_split_dict, data_set_values_list, end_index) \<Rightarrow>
          (case concatenate data_set_values_list of
             Inl e \<Rightarrow> Inl e
           | Inr tracer_value \<Rightarrow>
               (case len_array tracer_value of
                  Inl e \<Rightarrow> Inl e
                | Inr n \<Rightarrow>
                    if n = end_index
                    then merge_loop rest
                           (AList.update tracer tracer_value tracer_merged_dict)
                           (AList.update tracer data_set_split_dict tracer_split_dict)
                    else Inl AssertionError)))"

definition merge_data_sets ::
  "(string \<times> 'a tracer_value) list
     \<Rightarrow> error + ((string \<times> 'a ndarray) list \<times> (string \<times> (string \<times> slice) list) list)"
where
  "merge_data_sets tracer_dict = merge_loop tracer_dict [] []"

fun split_data_set_loop ::
  "'a ndarray \<Rightarrow> (string \<times> slice) list \<Rightarrow> (string \<times> 'a ndarray) list
     \<Rightarrow> error + (string \<times> 'a ndarray) list"
where
  "split_data_set_loop tracer_value [] data_set_dict = Inr data_set_dict"
| "split_data_set_loop tracer_value ((data_set_name, data_set_split_slice) # rest)
       data_set_dict =
     (case get_slice tracer_value data_set_split_slice of
        Inl e \<Rightarrow> Inl e
      | Inr v \<Rightarrow>
          split_data_set_loop tracer_value rest (AList.update data_set_name v data_set_dict))"

text \<open>\<open>sum(map(len, ...))\<close>.\<close>

fun sum_len :: "'a ndarray list \<Rightarrow> error + nat" where
  "sum_len [] = Inr 0"
| "sum_len (a # rest) =
     (case len_array a of
        Inl e \<Rightarrow> Inl e
      | Inr n \<Rightarrow> (case sum_len rest of Inl e \<Rightarrow> Inl e | Inr s \<Rightarrow> Inr (n + s)))"

definition split_data_set ::
  "'a ndarray \<Rightarrow> (string \<times> slice) list \<Rightarrow> error + (string \<times> 'a ndarray) list"
where
  "split_data_set tracer_value data_set_split_dict =
     (case split_data_set_loop tracer_value data_set_split_dict [] of
        Inl e \<Rightarrow> Inl e
      | Inr data_set_dict \<Rightarrow>
          (case sum_len (map snd data_set_dict) of
             Inl e \<Rightarrow> Inl e
           | Inr s \<Rightarrow>
               (case len_array tracer_value of
                  Inl e \<Rightarrow> Inl e
                | Inr n \<Rightarrow> if s = n then Inr data_set_dict else Inl AssertionError)))"

fun split_loop ::
  "(string \<times> 'a ndarray) list \<Rightarrow> (string \<times> (string \<times> slice) list) list
     \<Rightarrow> (string \<times> 'a tracer_value) list \<Rightarrow> error + (string \<times> 'a tracer_value) list"
where
  "split_loop [] tracer_split_dict tracer_splitted_dict = Inr tracer_splitted_dict"
| "split_loop ((tracer, v) # rest) tracer_split_dict tracer_splitted_dict =
     (case map_of tracer_split_dict tracer of
        None \<Rightarrow>
          split_loop rest tracer_split_dict (AList.update tracer (Array v) tracer_splitted_dict)
      | Some data_set_split_dict \<Rightarrow>
          (case split_data_set v data_set_split_dict of
             Inl e \<Rightarrow> Inl e
           | Inr data_set_dict \<Rightarrow>
               split_loop rest tracer_split_dict
                 (AList.update tracer (Data_Sets data_set_dict) tracer_splitted_dict)))"

definition split_data_sets ::
  "(string \<times> 'a ndarray) list \<Rightarrow> (string \<times> (string \<times> slice) list) list
     \<Rightarrow> error + (string \<times> 'a tracer_value) list"
where
  "split_data_sets tracer_dict tracer_split_dict = split_loop tracer_dict tracer_split_dict []"

text \<open>A dictionary has each key once, and so has each dictionary of data sets in it.\<close>

fun is_dict_value :: "'a tracer_value \<Rightarrow> bool" where
  "is_dict_value (Array v) = True"
| "is_dict_value (Data_Sets ds) = distinct (map fst ds)"

definition is_dict :: "(string \<times> 'a tracer_value) list \<Rightarrow> bool" where
  "is_dict tracer_dict =
     (distinct (map fst tracer_dict) \<and> list_all (\<lambda>(tracer, v). is_dict_value v) tracer_dict)"

text \<open>
  Data sets that one array can hold: at least one, each a valid array with a first
  axis, and all of one dtype and of one shape behind the first axis.
\<close>

definition stackable :: "'a ndarray list \<Rightarrow> bool" where
  "stackable arrays =
     (arrays \<noteq> []
      \<and> list_all (\<lambda>a. valid_array a \<and> shape a \<noteq> [] \<and> dtype a = dtype (hd arrays)
                        \<and> tl (shape a) = tl (shape (hd arrays))) arrays)"

fun has_stackable_data_sets :: "'a tracer_value \<Rightarrow> bool" where
  "has_stackable_data_sets (Array v) = True"
| "has_stackable_data_sets (Data_Sets ds) = stackable (map snd ds)"

subsection \<open>Run chains\<close>

text \<open>
  A run chain: the runs of one spinup directory in order, the run at position \<open>i\<close> in
  the run directory of index \<open>i\<close>.  \<open>total_years\<close> is the sum of the years of the runs up
  to a position.
\<close>

definition chain_at :: "database \<Rightarrow> string \<Rightarrow> job list \<Rightarrow> bool" where
  "chain_at db spinup js =
     (length (run_dirs db spinup) = length js
      \<and> (\<forall>i < length js. jobs db (Run_Dir spinup i) = Some (js ! i)))"

definition total_years :: "job list \<Rightarrow> nat \<Rightarrow> int" where
  "total_years js k = sum_list (map last_year (take (Suc k) js))"

text \<open>The verdict on the run at a position of a chain, as the matching rule words it.\<close>

definition matches :: "model \<Rightarrow> job list \<Rightarrow> spinup_options \<Rightarrow> nat \<Rightarrow> bool" where
  "matches m js opts k =
     (if combination opts = ''and''
      then (total_years js k \<ge> years opts \<and> last_tolerance (js ! k) \<le> tolerance opts)
           \<or> total_years js k \<ge> model_spinup_max_years m
      else total_years js k \<ge> years opts \<or> last_tolerance (js ! k) \<le> tolerance opts)"

definition chain_jobs :: "string \<Rightarrow> job list \<Rightarrow> dir \<rightharpoonup> job" where
  "chain_jobs spinup js d =
     (case d of
        Run_Dir s i \<Rightarrow> if s = spinup \<and> i < length js then Some (js ! i) else None
      | _ \<Rightarrow> None)"

definition chain_database :: "string \<Rightarrow> job list \<Rightarrow> database" where
  "chain_database spinup js =
     \<lparr>dirs = map (Run_Dir spinup) [0..<length js], jobs = chain_jobs spinup js,
      unreadable = [], undeletable = [], submitted = [], purged = [], emitted = []\<rparr>"

definition run :: "int \<Rightarrow> real \<Rightarrow> job" where
  "run y t = \<lparr>last_year = y, last_tolerance = t, model_tracer_input_files = []\<rparr>"

definition options :: "int \<Rightarrow> real \<Rightarrow> string \<Rightarrow> string \<Rightarrow> spinup_options" where
  "options y t c mt = \<lparr>years = y, tolerance = t, combination = c, match_type = mt\<rparr>"

text \<open>A model with two tracers, two parameters and a years cap of 5000.\<close>

definition example_model :: model where
  "example_model =
     \<lparr>model_name = ''MITgcm-PO4-DOP'', tracers = [''po4'', ''dop''],
      model_spinup_max_years = 5000, start_from_closest_parameters = False,
      spinup_dir = ''spinup'', closest_index = Some 0,
      spinup_dir_of = (\<lambda>i. if i = 0 then ''spinup'' else ''closest/spinup''),
      use_constant_concentrations = True, initial_concentration_files = [],
      options_parameters = [1, 2], parameters = [1, 2],
      model_spinup_options = options 1000 (1 / 10000) ''or'' ''exact'',
      default_match_type = ''equal_or_nearest_better'', tmp_dir = None,
      mkdtemp = (\<lambda>db d. ''trajectory_tmp_0''),
      derivative_dir = ''derivative'', derivative_years = 50, step_size = 1,
      parameters_typical_values = [1, 1], parameters_len = 2, precision = 1\<rparr>"

text \<open>An external simulation that achieves the requested years at tolerance \<open>1/1000\<close>.\<close>

definition example_simulation :: simulation where
  "example_simulation db sub = (sub_years sub, 1 / 1000)"


text \<open>
  A chain whose runs add no negative years and whose achieved tolerances do not grow
  from one run to the next.
\<close>

definition improving :: "job list \<Rightarrow> bool" where
  "improving js =
     (list_all (\<lambda>j. 0 \<le> last_year j) js
      \<and> sorted_wrt (\<lambda>a b. last_tolerance b \<le> last_tolerance a) js)"

text \<open>A spinup directory with the run directories 0 and 2 and no run 1.\<close>

definition gap_database :: database where
  "gap_database =
     (chain_database ''spinup'' [])\<lparr>dirs := [Run_Dir ''spinup'' 0, Run_Dir ''spinup'' 2]\<rparr>"

text \<open>
  What merging yields, read off the input: a tracer's merged value is the array itself
  or its data sets stacked along the first axis, and the slices recorded for the data
  sets of a tracer are consecutive, starting at 0.
\<close>

fun recorded_slices :: "nat \<Rightarrow> (string \<times> 'a ndarray) list \<Rightarrow> (string \<times> slice) list" where
  "recorded_slices start_index [] = []"
| "recorded_slices start_index ((data_set_name, v) # rest) =
     (data_set_name, (start_index, start_index + hd (shape v)))
       # recorded_slices (start_index + hd (shape v)) rest"

definition stacked :: "'a ndarray list \<Rightarrow> 'a ndarray" where
  "stacked arrays =
     \<lparr>dtype = dtype (hd arrays),
      shape = sum_list (map (\<lambda>b. hd (shape b)) arrays) # tl (shape (hd arrays)),
      entries = concat (map entries arrays)\<rparr>"

fun merged_value :: "'a tracer_value \<Rightarrow> 'a ndarray" where
  "merged_value (Array v) = v"
| "merged_value (Data_Sets ds) = stacked (map snd ds)"

fun merged_dict :: "(string \<times> 'a tracer_value) list \<Rightarrow> (string \<times> 'a ndarray) list" where
  "merged_dict [] = []"
| "merged_dict ((tracer, v) # rest) = (tracer, merged_value v) # merged_dict rest"

fun split_dict ::
  "(string \<times> 'a tracer_value) list \<Rightarrow> (string \<times> (string \<times> slice) list) list"
where
  "split_dict [] = []"
| "split_dict ((tracer, Array v) # rest) = split_dict rest"
| "split_dict ((tracer, Data_Sets ds) # rest) = (tracer, recorded_slices 0 ds) # split_dict rest"

text \<open>An array of doubles of a given shape.\<close>

definition float64 :: "nat list \<Rightarrow> real list \<Rightarrow> real ndarray" where
  "float64 sh xs = \<lparr>dtype = ''float64'', shape = sh, entries = xs\<rparr>"







section \<open>Verification\<close>

subsection \<open>Accumulated years of a run chain\<close>

lemma real_years_loop_chain:
  assumes "\<forall>i < length js. jobs db (Run_Dir spinup i) = Some (js ! i)"
  shows "k < length js \<Longrightarrow>
    real_years_loop db (Run_Dir spinup k) True acc = Inr (acc + total_years js k)"
proof (induction k arbitrary: acc)
  case 0
  then show ?case using assms
    by (cases js) (simp_all add: real_years_loop.simps load_job_def total_years_def)
next
  case (Suc k)
  then have k: "k < length js" by simp
  have "take (Suc (Suc k)) js = take (Suc k) js @ [js ! Suc k]"
    using Suc.prems by (simp add: take_Suc_conv_app_nth)
  then have t: "total_years js (Suc k) = total_years js k + last_year (js ! Suc k)"
    by (simp add: total_years_def)
  show ?case using assms Suc.prems Suc.IH [OF k]
    by (simp add: real_years_loop.simps [of db "Run_Dir spinup (Suc k)"] load_job_def t)
qed

lemma real_years_chain:
  "chain_at db spinup js \<Longrightarrow> k < length js \<Longrightarrow>
     real_years db (Run_Dir spinup k) True = Inr (total_years js k)"
  using real_years_loop_chain [of js db spinup k 0] by (simp add: chain_at_def real_years_def)

lemma real_tolerance_chain:
  "chain_at db spinup js \<Longrightarrow> k < length js \<Longrightarrow>
     real_tolerance db (Run_Dir spinup k) = Inr (last_tolerance (js ! k))"
  by (simp add: chain_at_def real_tolerance_def load_job_def)

lemma run_dirs_chain_database:
  "run_dirs (chain_database spinup js) spinup = map (Run_Dir spinup) [0..<length js]"
  by (simp add: run_dirs_def chain_database_def is_run_dir_in_def)

lemma chain_at_chain_database: "chain_at (chain_database spinup js) spinup js"
  by (simp add: chain_at_def run_dirs_chain_database) (simp add: chain_database_def chain_jobs_def)

text \<open>
  Claim C7.  For the run at position \<open>k\<close> of a chain, \<open>real_years\<close> with
  \<open>include_previous_runs=True\<close> returns the sum of the years of the runs at the
  positions \<open>0\<close> to \<open>k\<close>, the runs reached by following the predecessor links down to
  run index \<open>0\<close>.
\<close>

theorem real_years_sums_chain:
  assumes "chain_at db spinup js" and "k < length js"
  shows "real_years db (Run_Dir spinup k) True = Inr (sum_list (map last_year (take (Suc k) js)))"
  using real_years_chain [OF assms] by (simp add: total_years_def)

text \<open>The chain with the years 5, 3 and 7 has 15 years at its last run.\<close>

theorem real_years_sums_chain_witness:
  "chain_at (chain_database ''spinup'' [run 5 0, run 3 0, run 7 0]) ''spinup''
     [run 5 0, run 3 0, run 7 0]
   \<and> real_years (chain_database ''spinup'' [run 5 0, run 3 0, run 7 0])
         (Run_Dir ''spinup'' 2) True = Inr 15"
  using real_years_sums_chain [OF chain_at_chain_database, where k = 2 and spinup = "''spinup''"
      and js = "[run 5 0, run 3 0, run 7 0]"]
  by (simp add: run_def chain_at_chain_database)

subsection \<open>The matching rule\<close>

lemma real_years_single:
  "jobs db d = Some j \<Longrightarrow> real_years db d False = Inr (last_year j)"
  by (simp add: real_years_def real_years_loop.simps load_job_def)

lemma is_run_matching_options_chain:
  assumes "chain_at db spinup js" and "k < length js"
  shows "is_run_matching_options m db (Some (Run_Dir spinup k)) opts True =
     (if combination opts = ''and'' then
        Inr (matches m js opts k,
             if matches m js opts k \<and> last_tolerance (js ! k) > tolerance opts
             then [Max_Spinup_Years_Reached (Run_Dir spinup k) (tolerance opts)
                     (model_spinup_max_years m)]
             else [])
      else if combination opts = ''or'' then Inr (matches m js opts k, [])
      else Inl (ValueError (combination_unknown (combination opts))))"
  using real_years_chain [OF assms] real_tolerance_chain [OF assms]
  by (simp add: is_run_matching_options_def matches_def Let_def)

text \<open>
  Claim C1.  For the run at position \<open>k\<close> of a chain, with the years accumulated over
  the chain and the tolerance the run achieved: under combination \<open>or\<close> the run matches
  iff the accumulated years reach the requested years or the achieved tolerance is within
  the requested one; under combination \<open>and\<close> it matches iff both hold or the accumulated
  years reach the cap \<open>model_spinup_max_years\<close>, and a warning is emitted iff the run
  matches while its tolerance exceeds the requested one.
\<close>

theorem is_run_matching_options_rule:
  assumes "chain_at db spinup js" and "k < length js"
  shows "(combination opts = ''or'' \<longrightarrow>
            is_run_matching_options m db (Some (Run_Dir spinup k)) opts True =
              Inr (total_years js k \<ge> years opts \<or> last_tolerance (js ! k) \<le> tolerance opts, []))
       \<and> (combination opts = ''and'' \<longrightarrow>
            (\<exists>ws. is_run_matching_options m db (Some (Run_Dir spinup k)) opts True =
                    Inr ((total_years js k \<ge> years opts \<and> last_tolerance (js ! k) \<le> tolerance opts)
                         \<or> total_years js k \<ge> model_spinup_max_years m, ws)
                 \<and> (ws = [] \<or> ws = [Max_Spinup_Years_Reached (Run_Dir spinup k) (tolerance opts)
                                       (model_spinup_max_years m)])
                 \<and> (ws \<noteq> [] \<longleftrightarrow>
                      ((total_years js k \<ge> years opts \<and> last_tolerance (js ! k) \<le> tolerance opts)
                         \<or> total_years js k \<ge> model_spinup_max_years m)
                      \<and> last_tolerance (js ! k) > tolerance opts)))"
  using is_run_matching_options_chain [OF assms, of m opts]
  by (auto simp add: matches_def)

text \<open>
  With 1000 years, tolerance \<open>1/10000\<close> and a cap of 5000 years under \<open>and\<close>: a chain at
  5000 years and tolerance \<open>1/100\<close> matches with a warning, a chain at 999 years and
  tolerance \<open>1/100000\<close> does not match; under \<open>or\<close> the latter matches.
\<close>

theorem is_run_matching_options_rule_witness:
  "is_run_matching_options example_model (chain_database ''spinup'' [run 5000 (1 / 100)])
       (Some (Run_Dir ''spinup'' 0)) (options 1000 (1 / 10000) ''and'' ''exact'') True
     = Inr (True, [Max_Spinup_Years_Reached (Run_Dir ''spinup'' 0) (1 / 10000) 5000])
   \<and> is_run_matching_options example_model (chain_database ''spinup'' [run 999 (1 / 100000)])
       (Some (Run_Dir ''spinup'' 0)) (options 1000 (1 / 10000) ''and'' ''exact'') True
     = Inr (False, [])
   \<and> is_run_matching_options example_model (chain_database ''spinup'' [run 999 (1 / 100000)])
       (Some (Run_Dir ''spinup'' 0)) (options 1000 (1 / 10000) ''or'' ''exact'') True
     = Inr (True, [])"
  using
    is_run_matching_options_rule [OF chain_at_chain_database, where k = 0 and m = example_model
      and spinup = "''spinup''" and js = "[run 5000 (1 / 100)]"
      and opts = "options 1000 (1 / 10000) ''and'' ''exact''"]
    is_run_matching_options_rule [OF chain_at_chain_database, where k = 0 and m = example_model
      and spinup = "''spinup''" and js = "[run 999 (1 / 100000)]"
      and opts = "options 1000 (1 / 10000) ''and'' ''exact''"]
    is_run_matching_options_rule [OF chain_at_chain_database, where k = 0 and m = example_model
      and spinup = "''spinup''" and js = "[run 999 (1 / 100000)]"
      and opts = "options 1000 (1 / 10000) ''or'' ''exact''"]
  by (auto simp add: run_def options_def example_model_def total_years_def)

subsection \<open>An unknown combination keyword\<close>

text \<open>
  Claim C9 as stated fails where no run directory is present: the keyword is only looked
  at for a run directory, and without one the answer is \<open>False\<close>, with no exception.
\<close>

theorem combination_unknown_counterexample:
  "''xor'' \<noteq> ''and'' \<and> ''xor'' \<noteq> ''or''
   \<and> is_run_matching_options example_model (chain_database ''spinup'' []) None
       (options 1000 0 ''xor'' ''exact'') True = Inr (False, [])"
  by (simp add: is_run_matching_options_def)

text \<open>
  Claim C9, amended.  For options whose combination keyword is neither \<open>and\<close> nor \<open>or\<close>:
  for a run of a chain (its job records load), \<open>is_run_matching_options\<close> raises the
  \<open>ValueError\<close> whose message names the keyword, with and without the previous runs;
  where no run directory is present it returns \<open>False\<close>.
\<close>

theorem combination_unknown_raises:
  assumes "combination opts \<noteq> ''and''" and "combination opts \<noteq> ''or''"
  shows "(chain_at db spinup js \<and> k < length js \<longrightarrow>
            is_run_matching_options m db (Some (Run_Dir spinup k)) opts True =
              Inl (ValueError (''Combination '' @ [CHR 0x22] @ combination opts @ [CHR 0x22]
                                 @ '' unknown.''))
          \<and> is_run_matching_options m db (Some (Run_Dir spinup k)) opts False =
              Inl (ValueError (''Combination '' @ [CHR 0x22] @ combination opts @ [CHR 0x22]
                                 @ '' unknown.'')))
       \<and> is_run_matching_options m db None opts include_previous_runs = Inr (False, [])"
proof -
  have none: "is_run_matching_options m db None opts include_previous_runs = Inr (False, [])"
    by (simp add: is_run_matching_options_def)
  have some: "is_run_matching_options m db (Some (Run_Dir spinup k)) opts True =
      Inl (ValueError (combination_unknown (combination opts)))"
    if "chain_at db spinup js" "k < length js"
    using is_run_matching_options_chain [OF that, of m opts] assms by simp
  have single: "is_run_matching_options m db (Some (Run_Dir spinup k)) opts False =
      Inl (ValueError (combination_unknown (combination opts)))"
    if "chain_at db spinup js" "k < length js"
  proof -
    have j: "jobs db (Run_Dir spinup k) = Some (js ! k)" using that by (simp add: chain_at_def)
    show ?thesis
      using real_years_single [OF j] real_tolerance_chain [OF that] assms
      by (simp add: is_run_matching_options_def)
  qed
  show ?thesis using none some single by (simp add: combination_unknown_def)
qed

theorem combination_unknown_raises_witness:
  "''xor'' \<noteq> ''and'' \<and> ''xor'' \<noteq> ''or''
   \<and> is_run_matching_options example_model (chain_database ''spinup'' [run 5 0])
       (Some (Run_Dir ''spinup'' 0)) (options 1000 0 ''xor'' ''exact'') True
     = Inl (ValueError (''Combination '' @ [CHR 0x22] @ ''xor'' @ [CHR 0x22] @ '' unknown.''))"
  using combination_unknown_raises [where opts = "options 1000 0 ''xor'' ''exact''"
      and db = "chain_database ''spinup'' [run 5 0]" and spinup = "''spinup''" and k = 0
      and js = "[run 5 0]" and m = example_model]
    chain_at_chain_database [of "''spinup''" "[run 5 0]"]
  by (simp add: options_def)

subsection \<open>Match type \<open>equal_or_nearest_better\<close>\<close>

lemma chain_at_warn [simp]: "chain_at (warn db ws) spinup js = chain_at db spinup js"
  by (simp add: chain_at_def warn_def run_dirs_def)

lemma warn_fields [simp]:
  "dirs (warn db ws) = dirs db" "jobs (warn db ws) = jobs db"
  "submitted (warn db ws) = submitted db" "purged (warn db ws) = purged db"
  "unreadable (warn db ws) = unreadable db" "undeletable (warn db ws) = undeletable db"
  by (simp_all add: warn_def)

lemma is_run_matching_options_valid:
  assumes "chain_at db spinup js" and "k < length js"
    and "combination opts = ''and'' \<or> combination opts = ''or''"
  shows "\<exists>ws. is_run_matching_options m db (Some (Run_Dir spinup k)) opts True =
           Inr (matches m js opts k, ws)"
  using is_run_matching_options_chain [OF assms(1,2), of m opts] assms(3) by auto

lemma nearest_better_loop_chain:
  assumes "combination opts = ''and'' \<or> combination opts = ''or''"
  shows "chain_at db spinup js \<Longrightarrow> k < length js \<Longrightarrow>
    \<exists>i db'. nearest_better_loop m db (Run_Dir spinup k) opts = Inr (Run_Dir spinup i, db')
      \<and> i \<le> k \<and> (\<forall>j. i \<le> j \<and> j < k \<longrightarrow> matches m js opts j)
      \<and> (i = 0 \<or> \<not> matches m js opts (i - 1))
      \<and> dirs db' = dirs db \<and> jobs db' = jobs db \<and> submitted db' = submitted db"
proof (induction k arbitrary: db)
  case 0
  show ?case
    by (simp add: nearest_better_loop.simps [of m db "Run_Dir spinup 0"]
        is_run_matching_options_def)
next
  case (Suc k)
  then have k: "k < length js" by simp
  obtain ws where ws: "is_run_matching_options m db (Some (Run_Dir spinup k)) opts True =
      Inr (matches m js opts k, ws)"
    using is_run_matching_options_valid [OF Suc.prems(1) k assms] by blast
  show ?case
  proof (cases "matches m js opts k")
    case True
    have c: "chain_at (warn db ws) spinup js" using Suc.prems(1) by simp
    obtain i db' where r: "nearest_better_loop m (warn db ws) (Run_Dir spinup k) opts
          = Inr (Run_Dir spinup i, db')"
      "i \<le> k" "\<forall>j. i \<le> j \<and> j < k \<longrightarrow> matches m js opts j"
      "i = 0 \<or> \<not> matches m js opts (i - 1)"
      "dirs db' = dirs (warn db ws)" "jobs db' = jobs (warn db ws)"
      "submitted db' = submitted (warn db ws)"
      using Suc.IH [OF c k] by blast
    have "nearest_better_loop m db (Run_Dir spinup (Suc k)) opts = Inr (Run_Dir spinup i, db')"
      using ws True r(1) by (simp add: nearest_better_loop.simps [of m db "Run_Dir spinup (Suc k)"])
    moreover have "\<forall>j. i \<le> j \<and> j < Suc k \<longrightarrow> matches m js opts j"
      using r(3) True by (auto simp add: less_Suc_eq)
    ultimately show ?thesis using r by auto
  next
    case False
    have "nearest_better_loop m db (Run_Dir spinup (Suc k)) opts
        = Inr (Run_Dir spinup (Suc k), warn db ws)"
      using ws False by (simp add: nearest_better_loop.simps [of m db "Run_Dir spinup (Suc k)"])
    then show ?thesis using False by auto
  qed
qed

lemma last_run_dir_chain:
  assumes "chain_at db spinup js" and "js \<noteq> []"
  shows "last_run_dir db spinup = Inr (Some (Run_Dir spinup (length js - 1)))"
proof -
  have l: "length (run_dirs db spinup) = length js" using assms by (simp add: chain_at_def)
  have n: "nat (int (length js) - 1) = length js - 1" by simp
  have j: "jobs db (Run_Dir spinup (length js - 1)) = Some (js ! (length js - 1))"
    using assms by (simp add: chain_at_def)
  have "0 < length js" using assms by simp
  then show ?thesis using l j by (simp add: last_run_dir_def Let_def n load_job_def)
qed

lemma total_years_Suc:
  "Suc k < length js \<Longrightarrow> total_years js (Suc k) = total_years js k + last_year (js ! Suc k)"
  by (simp add: total_years_def take_Suc_conv_app_nth)

lemma matches_Suc:
  assumes "improving js" and "Suc k < length js" and "matches m js opts k"
  shows "matches m js opts (Suc k)"
proof -
  have y: "0 \<le> last_year (js ! Suc k)"
    using assms(1,2) by (simp add: improving_def list_all_length)
  have t: "last_tolerance (js ! Suc k) \<le> last_tolerance (js ! k)"
    using assms(1,2) by (simp add: improving_def sorted_wrt_iff_nth_less)
  show ?thesis using assms(3) y t total_years_Suc [OF assms(2)]
    by (auto simp add: matches_def split: if_splits)
qed

lemma matches_mono:
  assumes "improving js" and "matches m js opts j"
  shows "j \<le> k \<Longrightarrow> k < length js \<Longrightarrow> matches m js opts k"
proof (induction k)
  case 0
  then show ?case using assms by simp
next
  case (Suc k)
  show ?case
  proof (cases "j = Suc k")
    case True
    then show ?thesis using assms by simp
  next
    case False
    then have "matches m js opts k" using Suc by simp
    then show ?thesis using matches_Suc [OF assms(1) Suc.prems(2)] by simp
  qed
qed

lemma matching_run_dir_nearest_better:
  assumes "chain_at db (spinup_dir m) js" and "js \<noteq> []"
    and "combination opts = ''and'' \<or> combination opts = ''or''"
    and "matches m js opts (length js - 1)"
    and "match_type opts = ''equal_or_nearest_better''"
  shows "\<exists>i db'. matching_run_dir m sim db opts = Inr (Run_Dir (spinup_dir m) i, db')
      \<and> i < length js
      \<and> (\<forall>j. i \<le> j \<and> j < length js \<longrightarrow> matches m js opts j)
      \<and> (i = 0 \<or> \<not> matches m js opts (i - 1))
      \<and> (improving js \<longrightarrow> (\<forall>j < i. \<not> matches m js opts j))
      \<and> dirs db' = dirs db \<and> jobs db' = jobs db \<and> submitted db' = submitted db"
proof -
  let ?n = "length js - 1"
  have n: "?n < length js" using assms(2) by simp
  obtain ws where ws: "is_run_matching_options m db (Some (Run_Dir (spinup_dir m) ?n)) opts True =
      Inr (True, ws)"
    using is_run_matching_options_valid [OF assms(1) n assms(3), of m] assms(4) by auto
  have c: "chain_at (warn db ws) (spinup_dir m) js" using assms(1) by simp
  obtain i db' where r:
    "nearest_better_loop m (warn db ws) (Run_Dir (spinup_dir m) ?n) opts
       = Inr (Run_Dir (spinup_dir m) i, db')"
    "i \<le> ?n" "\<forall>j. i \<le> j \<and> j < ?n \<longrightarrow> matches m js opts j"
    "i = 0 \<or> \<not> matches m js opts (i - 1)"
    "dirs db' = dirs (warn db ws)" "jobs db' = jobs (warn db ws)"
    "submitted db' = submitted (warn db ws)"
    using nearest_better_loop_chain [OF assms(3) c n, of m] by blast
  have res: "matching_run_dir m sim db opts = Inr (Run_Dir (spinup_dir m) i, db')"
    using last_run_dir_chain [OF assms(1,2)] ws r(1) assms(5)
    by (simp add: matching_run_dir.simps [of m sim db opts])
  have i: "i < length js" using r(2) n by simp
  have block: "\<forall>j. i \<le> j \<and> j < length js \<longrightarrow> matches m js opts j"
  proof (intro allI impI)
    fix j assume j: "i \<le> j \<and> j < length js"
    show "matches m js opts j"
    proof (cases "j = ?n")
      case True then show ?thesis using assms(4) by simp
    next
      case False
      then have "j < ?n" using j by arith
      then show ?thesis using r(3) j by simp
    qed
  qed
  have first: "\<forall>j < i. \<not> matches m js opts j" if imp: "improving js"
  proof (intro allI impI)
    fix j assume j: "j < i"
    then have pos: "i \<noteq> 0" by simp
    then have nm: "\<not> matches m js opts (i - 1)" using r(4) by simp
    show "\<not> matches m js opts j"
    proof
      assume "matches m js opts j"
      then have "matches m js opts (i - 1)"
        using matches_mono [OF imp, of m opts j "i - 1"] j i by simp
      then show False using nm by simp
    qed
  qed
  show ?thesis using res i block r(4) first r(5,6,7) by auto
qed


text \<open>
  Claim C3 as stated fails on a chain whose matching runs are not contiguous.  With 30
  years or tolerance \<open>1/10000\<close> asked for, the first run matches by its tolerance, the
  second run matches by neither, the third by its years: the walk stops at the second run
  and the third is returned, although the first satisfies the options.
\<close>

theorem equal_or_nearest_better_counterexample:
  "map_sum id fst
     (matching_run_dir example_model example_simulation
        (chain_database ''spinup'' [run 10 (1 / 100000), run 10 (1 / 100), run 10 (1 / 100)])
        (options 30 (1 / 10000) ''or'' ''equal_or_nearest_better''))
     = Inr (Run_Dir ''spinup'' 2)
   \<and> is_run_matching_options example_model
        (chain_database ''spinup'' [run 10 (1 / 100000), run 10 (1 / 100), run 10 (1 / 100)])
        (Some (Run_Dir ''spinup'' 0))
        (options 30 (1 / 10000) ''or'' ''equal_or_nearest_better'') True = Inr (True, [])"
proof -
  let ?js = "[run 10 (1 / 100000), run 10 (1 / 100), run 10 (1 / 100)]"
  let ?opts = "options 30 (1 / 10000) ''or'' ''equal_or_nearest_better''"
  let ?db = "chain_database ''spinup'' ?js"
  have s: "spinup_dir example_model = ''spinup''" by (simp add: example_model_def)
  have c: "chain_at ?db (spinup_dir example_model) ?js"
    unfolding s by (rule chain_at_chain_database)
  have m0: "matches example_model ?js ?opts 0"
    by (simp add: matches_def total_years_def run_def options_def)
  have m1: "\<not> matches example_model ?js ?opts 1"
    by (simp add: matches_def total_years_def run_def options_def)
  have m2: "matches example_model ?js ?opts 2"
    by (simp add: matches_def total_years_def run_def options_def)
  have ne: "?js \<noteq> []" by simp
  have comb: "combination ?opts = ''and'' \<or> combination ?opts = ''or''"
    by (simp add: options_def)
  have lst: "matches example_model ?js ?opts (length ?js - 1)"
    by (simp add: matches_def total_years_def run_def options_def)
  have mt: "match_type ?opts = ''equal_or_nearest_better''" by (simp add: options_def)
  obtain i db' where r:
    "matching_run_dir example_model example_simulation ?db ?opts
       = Inr (Run_Dir (spinup_dir example_model) i, db')"
    "i < length ?js" "\<forall>j. i \<le> j \<and> j < length ?js \<longrightarrow> matches example_model ?js ?opts j"
    using matching_run_dir_nearest_better [OF c ne comb lst mt, of example_simulation] by auto
  have "i \<noteq> 0" "i \<noteq> 1" using r(3) m1 by auto
  then have "i = 2" using r(2) by simp
  then have first: "map_sum id fst (matching_run_dir example_model example_simulation ?db ?opts)
      = Inr (Run_Dir ''spinup'' 2)"
    using r(1) s by simp
  have "is_run_matching_options example_model ?db (Some (Run_Dir ''spinup'' 0)) ?opts True
      = Inr (True, [])"
    using is_run_matching_options_chain [OF c, of 0 example_model ?opts] m0 s
    by (simp add: options_def)
  then show ?thesis using first by simp
qed

text \<open>
  Claim C3, amended.  For a chain whose last run matches and match type
  \<open>equal_or_nearest_better\<close>, \<open>matching_run_dir\<close> returns the first run of the unbroken
  block of matching runs that ends at the last run: every run from the returned one to
  the last matches, and the predecessor of the returned run, if there is one, does not.
  Nothing is created or submitted.  On a chain whose years are not negative and whose
  tolerances do not grow, no run before the returned one matches.
\<close>

theorem equal_or_nearest_better_block:
  assumes "chain_at db (spinup_dir m) js" and "js \<noteq> []"
    and "combination opts = ''and'' \<or> combination opts = ''or''"
    and "matches m js opts (length js - 1)"
    and "match_type opts = ''equal_or_nearest_better''"
  shows "\<exists>i db'. matching_run_dir m sim db opts = Inr (Run_Dir (spinup_dir m) i, db')
      \<and> i < length js
      \<and> (\<forall>j. i \<le> j \<and> j < length js \<longrightarrow> matches m js opts j)
      \<and> (i = 0 \<or> \<not> matches m js opts (i - 1))
      \<and> (improving js \<longrightarrow> (\<forall>j < i. \<not> matches m js opts j))
      \<and> dirs db' = dirs db \<and> jobs db' = jobs db \<and> submitted db' = submitted db"
  using assms by (rule matching_run_dir_nearest_better)

text \<open>
  Three runs of 500 years with tolerances \<open>1/100\<close>, \<open>1/1000\<close>, \<open>1/10000\<close>, asked for 1000
  years or tolerance \<open>1/1000\<close>: the second run is returned.
\<close>

theorem equal_or_nearest_better_block_witness:
  "improving [run 500 (1 / 100), run 500 (1 / 1000), run 500 (1 / 10000)]
   \<and> matches example_model [run 500 (1 / 100), run 500 (1 / 1000), run 500 (1 / 10000)]
        (options 1000 (1 / 1000) ''or'' ''equal_or_nearest_better'') 2
   \<and> map_sum id fst
       (matching_run_dir example_model example_simulation
          (chain_database ''spinup'' [run 500 (1 / 100), run 500 (1 / 1000), run 500 (1 / 10000)])
          (options 1000 (1 / 1000) ''or'' ''equal_or_nearest_better''))
     = Inr (Run_Dir ''spinup'' 1)"
proof -
  let ?js = "[run 500 (1 / 100), run 500 (1 / 1000), run 500 (1 / 10000)]"
  let ?opts = "options 1000 (1 / 1000) ''or'' ''equal_or_nearest_better''"
  let ?db = "chain_database ''spinup'' ?js"
  have s: "spinup_dir example_model = ''spinup''" by (simp add: example_model_def)
  have c: "chain_at ?db (spinup_dir example_model) ?js"
    unfolding s by (rule chain_at_chain_database)
  have imp: "improving ?js" by (simp add: improving_def run_def)
  have m0: "\<not> matches example_model ?js ?opts 0"
    by (simp add: matches_def total_years_def run_def options_def)
  have m1: "matches example_model ?js ?opts 1"
    by (simp add: matches_def total_years_def run_def options_def)
  have m2: "matches example_model ?js ?opts 2"
    by (simp add: matches_def total_years_def run_def options_def)
  have ne: "?js \<noteq> []" by simp
  have comb: "combination ?opts = ''and'' \<or> combination ?opts = ''or''"
    by (simp add: options_def)
  have lst: "matches example_model ?js ?opts (length ?js - 1)"
    by (simp add: matches_def total_years_def run_def options_def)
  have mt: "match_type ?opts = ''equal_or_nearest_better''" by (simp add: options_def)
  obtain i db' where r:
    "matching_run_dir example_model example_simulation ?db ?opts
       = Inr (Run_Dir (spinup_dir example_model) i, db')"
    "i < length ?js" "\<forall>j. i \<le> j \<and> j < length ?js \<longrightarrow> matches example_model ?js ?opts j"
    "i = 0 \<or> \<not> matches example_model ?js ?opts (i - 1)"
    using equal_or_nearest_better_block [OF c ne comb lst mt, of example_simulation] by auto
  have "i \<noteq> 0" using r(3) m0 by auto
  moreover have "i \<noteq> 2" using r(4) m1 by auto
  ultimately have "i = 1" using r(2) by simp
  then show ?thesis using r(1) s imp m2 by simp
qed

subsection \<open>Combination \<open>and\<close> on a concrete database\<close>

text \<open>The definitions that evaluate a resolution on a concrete state.\<close>

lemmas eval_defs =
  last_run_dir_def run_dirs_def is_run_dir_in_def load_job_def
  is_run_matching_options_def real_years_def real_tolerance_def
  closest_last_run_dir_def closest_spinup_dir_def closest_parameter_set_dir_def
  spinup_dir_with_index_def finish_last_run_def wait_until_run_finished_def
  start_new_run_def make_new_run_dir_def makedirs_exist_ok_def makedirs_def start_run_def
  tracer_output_files_def warn_def years_only_def tolerance_only_def
  chain_database_def chain_jobs_def run_def options_def example_model_def
  example_simulation_def Let_def

text \<open>
  Claim C2 on a database without any run, for 1000 years and tolerance \<open>1/10000\<close> under
  combination \<open>and\<close>.  With \<open>start_from_closest_parameters\<close> set and a closest
  parameter set that has no run, \<open>closest_parameter_set_dir\<close> is \<open>None\<close>,
  \<open>closest_spinup_dir\<close> raises \<open>TypeError\<close>, and \<open>matching_run_dir\<close> ends there,
  before either of the two resolutions under \<open>or\<close>.  Without the flag the same request
  runs both: a first run of 1000 years at tolerance 0, then, from its output, a run of
  the 4000 years left to the cap at the requested tolerance, whose directory is returned.
\<close>

theorem and_resolution_raises_in_closest_lookup:
  "matching_run_dir (example_model\<lparr>start_from_closest_parameters := True\<rparr>)
     example_simulation (chain_database ''spinup'' [])
     (options 1000 (1 / 10000) ''and'' ''exact'') = Inl TypeError
   \<and> map_sum id (\<lambda>(d, db). (d, submitted db))
       (matching_run_dir example_model example_simulation (chain_database ''spinup'' [])
          (options 1000 (1 / 10000) ''and'' ''exact''))
     = Inr (Run_Dir ''spinup'' 1,
            [\<lparr>sub_output_path = Run_Dir ''spinup'' 0, sub_model_parameters = [1, 2],
              sub_years = 1000, sub_tolerance = 0,
              sub_initial_constant_concentrations = True, sub_tracer_input_files = [],
              sub_total_concentration_factor = 1, sub_write_trajectory = False,
              sub_wait_until_finished = True\<rparr>,
             \<lparr>sub_output_path = Run_Dir ''spinup'' 1, sub_model_parameters = [1, 2],
              sub_years = 4000, sub_tolerance = 1 / 10000,
              sub_initial_constant_concentrations = False,
              sub_tracer_input_files =
                [(Run_Dir ''spinup'' 0, ''po4_output.petsc''),
                 (Run_Dir ''spinup'' 0, ''dop_output.petsc'')],
              sub_total_concentration_factor = 1, sub_write_trajectory = False,
              sub_wait_until_finished = True\<rparr>])"
  by (simp add: matching_run_dir.simps real_years_loop.simps nearest_better_loop.simps eval_defs)

subsection \<open>New run directories\<close>

lemma run_dirs_makedirs_exist_ok_other:
  "run_dirs (makedirs_exist_ok db (Other_Dir p)) q = run_dirs db q"
  by (simp add: run_dirs_def makedirs_exist_ok_def is_run_dir_in_def)

lemma dirs_makedirs_exist_ok: "set (dirs (makedirs_exist_ok db d)) = insert d (set (dirs db))"
  by (auto simp add: makedirs_exist_ok_def)

text \<open>
  Claim C10.  \<open>make_new_run_dir\<close> either raises \<open>FileExistsError\<close>, when the directory
  whose index is the number of discovered run directories exists already, or creates and
  returns exactly that directory, which did not exist before.  After a success a second
  creation of the same directory raises, so two attempts at one run index do not both
  succeed.  On a readable path the new directory is added at the end of the listing, so
  run indices that were \<open>0..N-1\<close> in order become \<open>0..N\<close>.
\<close>

theorem make_new_run_dir_index:
  "(case make_new_run_dir db p of
      Inl e \<Rightarrow>
        e = FileExistsError (Run_Dir p (length (run_dirs db p)))
        \<and> Run_Dir p (length (run_dirs db p)) \<in> set (dirs db)
    | Inr (d, db') \<Rightarrow>
        d = Run_Dir p (length (run_dirs db p))
        \<and> d \<notin> set (dirs db)
        \<and> set (dirs db') = set (dirs db) \<union> {Other_Dir p, d}
        \<and> jobs db' = jobs db
        \<and> makedirs db' d = Inl (FileExistsError d)
        \<and> (p \<notin> set (unreadable db) \<longrightarrow> run_dirs db' p = run_dirs db p @ [d])
        \<and> (p \<notin> set (unreadable db) \<longrightarrow>
             map run_index_of (run_dirs db p) = [0..<length (run_dirs db p)] \<longrightarrow>
             map run_index_of (run_dirs db' p) = [0..<Suc (length (run_dirs db p))]))"
proof -
  let ?db1 = "makedirs_exist_ok db (Other_Dir p)"
  let ?d = "Run_Dir p (length (run_dirs db p))"
  have mem: "?d \<in> set (dirs ?db1) \<longleftrightarrow> ?d \<in> set (dirs db)"
    by (simp add: dirs_makedirs_exist_ok)
  show ?thesis
  proof (cases "?d \<in> set (dirs db)")
    case True
    then show ?thesis
      using mem by (simp add: make_new_run_dir_def Let_def run_dirs_makedirs_exist_ok_other
          makedirs_def)
  next
    case False
    let ?db2 = "?db1\<lparr>dirs := dirs ?db1 @ [?d]\<rparr>"
    have r: "make_new_run_dir db p = Inr (?d, ?db2)"
      using False mem by (simp add: make_new_run_dir_def Let_def
          run_dirs_makedirs_exist_ok_other makedirs_def)
    have s: "set (dirs ?db2) = set (dirs db) \<union> {Other_Dir p, ?d}"
      by (auto simp add: dirs_makedirs_exist_ok)
    have j: "jobs ?db2 = jobs db" by (simp add: makedirs_exist_ok_def)
    have again: "makedirs ?db2 ?d = Inl (FileExistsError ?d)" by (simp add: makedirs_def)
    have u: "unreadable ?db2 = unreadable db" by (simp add: makedirs_exist_ok_def)
    have l: "run_dirs ?db2 p = run_dirs db p @ [?d]" if "p \<notin> set (unreadable db)"
      using that by (simp add: run_dirs_def makedirs_exist_ok_def is_run_dir_in_def)
    show ?thesis using r False s j again l by simp
  qed
qed

text \<open>
  After the runs 0 and 1 the new run directory has index 2; with the run directories 0
  and 2 the count is 2 as well, and the creation raises.
\<close>

theorem make_new_run_dir_index_witness:
  "map_sum id fst (make_new_run_dir (chain_database ''spinup'' [run 5 0, run 3 0]) ''spinup'')
     = Inr (Run_Dir ''spinup'' 2)
   \<and> make_new_run_dir gap_database ''spinup'' = Inl (FileExistsError (Run_Dir ''spinup'' 2))"
proof -
  let ?db = "chain_database ''spinup'' [run 5 0, run 3 0]"
  have n: "length (run_dirs ?db ''spinup'') = 2" by (simp add: run_dirs_chain_database)
  have fresh: "Run_Dir ''spinup'' 2 \<notin> set (dirs ?db)" by (simp add: chain_database_def)
  have first: "map_sum id fst (make_new_run_dir ?db ''spinup'') = Inr (Run_Dir ''spinup'' 2)"
  proof (cases "make_new_run_dir ?db ''spinup''")
    case (Inl e)
    then show ?thesis
      using make_new_run_dir_index [where db = ?db and p = "''spinup''"] n fresh by simp
  next
    case (Inr r)
    then show ?thesis
      using make_new_run_dir_index [where db = ?db and p = "''spinup''"] n by (cases r) simp
  qed
  have g: "length (run_dirs gap_database ''spinup'') = 2"
    by (simp add: gap_database_def run_dirs_def is_run_dir_in_def chain_database_def)
  have taken: "Run_Dir ''spinup'' 2 \<in> set (dirs gap_database)"
    by (simp add: gap_database_def)
  have second: "make_new_run_dir gap_database ''spinup''
      = Inl (FileExistsError (Run_Dir ''spinup'' 2))"
  proof (cases "make_new_run_dir gap_database ''spinup''")
    case (Inl e)
    then show ?thesis
      using make_new_run_dir_index [where db = gap_database and p = "''spinup''"] g by simp
  next
    case (Inr r)
    then show ?thesis
      using make_new_run_dir_index [where db = gap_database and p = "''spinup''"] g taken
      by (cases r) simp
  qed
  show ?thesis using first second by simp
qed

subsection \<open>A request for no tracer\<close>

lemma check_tracers_empty: "check_tracers m (Some []) = Inr []"
  by (simp add: check_tracers_def)

lemma trajectory_with_load_function_empty:
  "trajectory_with_load_function m sim load db run_dir ps (Some []) = Inr ([], db)"
  by (simp add: trajectory_with_load_function_def check_tracers_empty)

lemma f_values_empty:
  "f_values m sim load db (Some []) =
     (case matching_run_dir m sim db (model_spinup_options m) of
        Inl e \<Rightarrow> Inl e
      | Inr (run_dir, db1) \<Rightarrow> Inr ([], db1))"
  by (simp add: f_values_def check_tracers_empty trajectory_with_load_function_empty
      split: sum.splits)

lemma df_values_empty:
  "derivative_order \<in> {None, Some 1, Some 2} \<Longrightarrow>
   df_values m derivative db (Some []) derivative_order = Inr ([], db)"
  by (auto simp add: df_values_def check_tracers_empty)

text \<open>
  Claim C8 on a database without any run, for a model asking for 1000 years or tolerance
  \<open>1/10000\<close>.  \<open>f_all\<close> with the empty tracer tuple returns the empty mapping, but
  \<open>_f\<close> has resolved the run directory first, and the spinup job of 1000 years is
  submitted and waited for.  On the same database \<open>_df\<close> with the empty tracer tuple
  returns the empty mapping and leaves the state as it is.
\<close>

theorem f_all_zero_tracers_submits_spinup:
  "map_sum id (\<lambda>(f, db). (f, submitted db))
     (f_all example_model example_simulation (\<lambda>time_dim db d tracer. ())
        (chain_database ''spinup'' []) 1 (Some []))
   = Inr ([],
          [\<lparr>sub_output_path = Run_Dir ''spinup'' 0, sub_model_parameters = [1, 2],
            sub_years = 1000, sub_tolerance = 1 / 10000,
            sub_initial_constant_concentrations = True, sub_tracer_input_files = [],
            sub_total_concentration_factor = 1, sub_write_trajectory = False,
            sub_wait_until_finished = True\<rparr>])
   \<and> df_values example_model (\<lambda>db ts. Inl TypeError) (chain_database ''spinup'' []) (Some [])
        (Some 1)
     = (Inr ([], chain_database ''spinup'' []) :: error + (string \<times> unit) list \<times> database)"
proof -
  have "map_sum id (\<lambda>(f, db). (f, submitted db))
     (f_all example_model example_simulation (\<lambda>time_dim db d tracer. ())
        (chain_database ''spinup'' []) 1 (Some []))
   = Inr ([],
          [\<lparr>sub_output_path = Run_Dir ''spinup'' 0, sub_model_parameters = [1, 2],
            sub_years = 1000, sub_tolerance = 1 / 10000,
            sub_initial_constant_concentrations = True, sub_tracer_input_files = [],
            sub_total_concentration_factor = 1, sub_write_trajectory = False,
            sub_wait_until_finished = True\<rparr>])"
    unfolding f_all_def f_values_empty
    by (simp add: matching_run_dir.simps real_years_loop.simps nearest_better_loop.simps
        eval_defs)
  then show ?thesis by (simp add: df_values_empty)
qed

subsection \<open>Reusing or resubmitting a partial-derivative run\<close>

lemma makedirs_exist_ok_fields [simp]:
  "jobs (makedirs_exist_ok db d) = jobs db"
  "submitted (makedirs_exist_ok db d) = submitted db"
  "purged (makedirs_exist_ok db d) = purged db"
  "undeletable (makedirs_exist_ok db d) = undeletable db"
  "emitted (makedirs_exist_ok db d) = emitted db"
  by (simp_all add: makedirs_exist_ok_def)


lemma matching_options_missing:
  "jobs db d = None \<Longrightarrow> matching_options m db d = Inr (False, [])"
  by (simp add: matching_options_def load_job_def)
















subsection \<open>Factor ids\<close>


















subsection \<open>Merging and splitting round trip\<close>

lemma update_fresh: "k \<notin> fst ` set al \<Longrightarrow> AList.update k v al = al @ [(k, v)]"
  by (induction al) auto

lemma fst_recorded_slices: "map fst (recorded_slices s ds) = map fst ds"
  by (induction s ds rule: recorded_slices.induct) auto

lemma len_array_axis: "shape a \<noteq> [] \<Longrightarrow> len_array a = Inr (hd (shape a))"
  by (cases "shape a") (simp_all add: len_array_def)

lemma merge_data_set_loop_eq:
  "distinct (map fst ds) \<Longrightarrow> fst ` set ds \<inter> fst ` set sp = {} \<Longrightarrow>
   list_all (\<lambda>a. shape a \<noteq> []) (map snd ds) \<Longrightarrow>
   merge_data_set_loop ds s sp vals =
     Inr (sp @ recorded_slices s ds, vals @ map snd ds,
          s + sum_list (map (\<lambda>b. hd (shape b)) (map snd ds)))"
proof (induction ds arbitrary: s sp vals)
  case Nil
  then show ?case by simp
next
  case (Cons p ds)
  obtain n v where p: "p = (n, v)" by (cases p)
  have fresh: "n \<notin> fst ` set sp" using Cons.prems(2) p by auto
  have d: "distinct (map fst ds)" using Cons.prems(1) by simp
  have i: "fst ` set ds \<inter> fst ` set (sp @ [(n, (s, s + hd (shape v)))]) = {}"
    using Cons.prems(1,2) p by auto
  have a: "list_all (\<lambda>a. shape a \<noteq> []) (map snd ds)" using Cons.prems(3) by simp
  have l: "len_array v = Inr (hd (shape v))"
    using Cons.prems(3) p by (simp add: len_array_axis)
  show ?case
    using Cons.IH [OF d i a, of "s + hd (shape v)" "vals @ [v]"] p l
    by (simp add: Let_def update_fresh [OF fresh] add.assoc)
qed

lemma concatenate_stackable:
  assumes "stackable arrays"
  shows "concatenate arrays = Inr (stacked arrays)"
proof (cases arrays)
  case Nil
  then show ?thesis using assms by (simp add: stackable_def)
next
  case (Cons a rest)
  have hd: "hd arrays = a" using Cons by simp
  have sub: "set rest \<subseteq> set arrays" and mem: "a \<in> set arrays" using Cons by auto
  have "\<forall>b \<in> set arrays. valid_array b \<and> shape b \<noteq> [] \<and> dtype b = dtype (hd arrays)
      \<and> tl (shape b) = tl (shape (hd arrays))"
    using assms unfolding stackable_def list_all_iff by (rule conjunct2)
  then have axis: "\<And>b. b \<in> set arrays \<Longrightarrow> shape b \<noteq> []"
    and same_dtype: "\<And>b. b \<in> set arrays \<Longrightarrow> dtype b = dtype a"
    and same_trailing: "\<And>b. b \<in> set arrays \<Longrightarrow> tl (shape b) = tl (shape a)"
    unfolding hd by blast+
  have same_length: "length (shape b) = length (shape a)" if bm: "b \<in> set arrays" for b
  proof -
    obtain x xs where b: "shape b = x # xs" using axis [OF bm] by (cases "shape b") auto
    obtain y ys where a: "shape a = y # ys" using axis [OF mem] by (cases "shape a") auto
    have "xs = ys" using same_trailing [OF bm] unfolding a b by simp
    then show ?thesis unfolding a b by simp
  qed
  have 1: "\<not> list_ex (\<lambda>b. dtype b \<noteq> dtype a) rest"
    unfolding list_ex_iff using same_dtype sub by blast
  have 2: "\<not> list_ex (\<lambda>b. shape b = []) (a # rest)"
    unfolding list_ex_iff Cons [symmetric] using axis by blast
  have 3: "\<not> list_ex (\<lambda>b. length (shape b) \<noteq> length (shape a)) rest"
    unfolding list_ex_iff using same_length sub by blast
  have 4: "\<not> list_ex (\<lambda>b. tl (shape b) \<noteq> tl (shape a)) rest"
    unfolding list_ex_iff using same_trailing sub by blast
  have "concatenate (a # rest) =
      Inr \<lparr>dtype = dtype a, shape = sum_list (map (\<lambda>b. hd (shape b)) (a # rest)) # tl (shape a),
           entries = concat (map entries (a # rest))\<rparr>"
    unfolding concatenate_def list.case if_not_P [OF 1] if_not_P [OF 2] if_not_P [OF 3]
      if_not_P [OF 4] ..
  then show ?thesis unfolding Cons stacked_def list.sel .
qed

lemma take_drop_middle:
  "length pre = p \<Longrightarrow> length v = k \<Longrightarrow> take k (drop p (pre @ v @ post)) = v"
  by simp

lemma split_data_set_loop_eq:
  "distinct (map fst ds) \<Longrightarrow> fst ` set ds \<inter> fst ` set acc = {} \<Longrightarrow>
   list_all (\<lambda>a. valid_array a \<and> shape a \<noteq> [] \<and> dtype a = d \<and> tl (shape a) = trailing)
     (map snd ds) \<Longrightarrow>
   length pre = s * prod_list trailing \<Longrightarrow>
   s + sum_list (map (\<lambda>b. hd (shape b)) (map snd ds)) \<le> N \<Longrightarrow>
   split_data_set_loop
     \<lparr>dtype = d, shape = N # trailing,
      entries = pre @ concat (map entries (map snd ds)) @ post\<rparr>
     (recorded_slices s ds) acc = Inr (acc @ ds)"
proof (induction ds arbitrary: s pre acc)
  case Nil
  then show ?case by simp
next
  case (Cons p ds)
  obtain n v where p: "p = (n, v)" by (cases p)
  let ?k = "hd (shape v)"
  let ?r = "prod_list trailing"
  let ?rest = "concat (map entries (map snd ds)) @ post"
  let ?M = "\<lparr>dtype = d, shape = N # trailing, entries = (pre @ entries v) @ ?rest\<rparr>"
  have fresh: "n \<notin> fst ` set acc" using Cons.prems(2) p by auto
  have dist: "distinct (map fst ds)" using Cons.prems(1) by simp
  have i: "fst ` set ds \<inter> fst ` set (acc @ [(n, v)]) = {}"
    using Cons.prems(1,2) p by auto
  have a: "list_all (\<lambda>a. valid_array a \<and> shape a \<noteq> [] \<and> dtype a = d \<and> tl (shape a) = trailing)
      (map snd ds)"
    using Cons.prems(3) by simp
  have v: "valid_array v" "shape v \<noteq> []" "dtype v = d" "tl (shape v) = trailing"
    using Cons.prems(3) p by simp_all
  obtain k where sh: "shape v = k # trailing" using v(2,4) by (cases "shape v") simp_all
  have lv: "length (entries v) = ?k * ?r"
    using v(1) by (simp add: valid_array_def sh)
  have veq: "\<lparr>dtype = d, shape = ?k # trailing, entries = entries v\<rparr> = v"
    using v(3) by (simp add: sh)
  have bound: "s + ?k \<le> N" using Cons.prems(5) p by simp
  have mins: "min s N = s" "min (s + ?k) N = s + ?k" using bound by simp_all
  have td: "take (?k * ?r) (drop (s * ?r) (pre @ entries v @ ?rest)) = entries v"
    using Cons.prems(4) lv by (intro take_drop_middle) simp_all
  have g: "get_slice ?M (s, s + ?k) = Inr v"
    unfolding get_slice_def using mins td veq by (simp add: Let_def)
  have pre': "length (pre @ entries v) = (s + ?k) * ?r"
    using Cons.prems(4) lv by (simp add: add_mult_distrib)
  have bound': "s + ?k + sum_list (map (\<lambda>b. hd (shape b)) (map snd ds)) \<le> N"
    using Cons.prems(5) p by (simp add: add.assoc)
  have ih: "split_data_set_loop ?M (recorded_slices (s + ?k) ds) (acc @ [(n, v)])
      = Inr ((acc @ [(n, v)]) @ ds)"
    using dist i a pre' bound' by (rule Cons.IH)
  show ?case
    using ih g p by (simp add: update_fresh [OF fresh])
qed

lemma sum_len_eq:
  "list_all (\<lambda>a. shape a \<noteq> []) arrays \<Longrightarrow>
   sum_len arrays = Inr (sum_list (map (\<lambda>b. hd (shape b)) arrays))"
  by (induction arrays) (simp_all add: len_array_axis)

lemma stackable_axes:
  assumes "stackable arrays"
  shows "list_all (\<lambda>a. shape a \<noteq> []) arrays"
    and "list_all (\<lambda>a. valid_array a \<and> shape a \<noteq> [] \<and> dtype a = dtype (hd arrays)
                       \<and> tl (shape a) = tl (shape (hd arrays))) arrays"
proof -
  show "list_all (\<lambda>a. valid_array a \<and> shape a \<noteq> [] \<and> dtype a = dtype (hd arrays)
                       \<and> tl (shape a) = tl (shape (hd arrays))) arrays"
    using assms unfolding stackable_def by (rule conjunct2)
  then show "list_all (\<lambda>a. shape a \<noteq> []) arrays"
    unfolding list_all_iff by blast
qed

lemma split_data_set_eq:
  assumes "distinct (map fst ds)" and "stackable (map snd ds)"
  shows "split_data_set (stacked (map snd ds)) (recorded_slices 0 ds) = Inr ds"
proof -
  let ?N = "sum_list (map (\<lambda>b. hd (shape b)) (map snd ds))"
  have l: "split_data_set_loop (stacked (map snd ds)) (recorded_slices 0 ds) [] = Inr ds"
    using split_data_set_loop_eq [OF assms(1) _ stackable_axes(2) [OF assms(2)],
        of "[]" "[]" 0 ?N "[]"]
    by (simp add: stacked_def)
  have s: "sum_len (map snd ds) = Inr ?N"
    using stackable_axes(1) [OF assms(2)] by (rule sum_len_eq)
  have n: "len_array (stacked (map snd ds)) = Inr ?N"
    by (simp add: len_array_def stacked_def)
  show ?thesis by (simp add: split_data_set_def l s n)
qed

lemma fst_merged_dict: "map fst (merged_dict m) = map fst m"
  by (induction m rule: merged_dict.induct) auto

lemma fst_split_dict: "fst ` set (split_dict m) \<subseteq> fst ` set m"
  by (induction m rule: split_dict.induct) auto

lemma merge_loop_eq:
  "distinct (map fst m) \<Longrightarrow> fst ` set m \<inter> fst ` set M = {} \<Longrightarrow>
   fst ` set m \<inter> fst ` set S = {} \<Longrightarrow>
   list_all (\<lambda>(tracer, v). is_dict_value v) m \<Longrightarrow>
   list_all (\<lambda>(tracer, v). has_stackable_data_sets v) m \<Longrightarrow>
   merge_loop m M S = Inr (M @ merged_dict m, S @ split_dict m)"
proof (induction m arbitrary: M S)
  case Nil
  then show ?case by simp
next
  case (Cons p m)
  obtain t v where p: "p = (t, v)" by (cases p)
  have freshM: "t \<notin> fst ` set M" and freshS: "t \<notin> fst ` set S"
    using Cons.prems(2,3) p by auto
  have d: "distinct (map fst m)" using Cons.prems(1) by simp
  have a: "list_all (\<lambda>(tracer, v). is_dict_value v) m"
    and h: "list_all (\<lambda>(tracer, v). has_stackable_data_sets v) m"
    using Cons.prems(4,5) by simp_all
  show ?case
  proof (cases v)
    case (Array xs)
    have iM: "fst ` set m \<inter> fst ` set (M @ [(t, xs)]) = {}"
      using Cons.prems(1,2) p by auto
    have iS: "fst ` set m \<inter> fst ` set S = {}" using Cons.prems(3) by auto
    show ?thesis
      using Cons.IH [OF d iM iS a h] p Array by (simp add: update_fresh [OF freshM])
  next
    case (Data_Sets ds)
    let ?N = "sum_list (map (\<lambda>b. hd (shape b)) (map snd ds))"
    have dd: "distinct (map fst ds)" and st: "stackable (map snd ds)"
      using Cons.prems(4,5) p Data_Sets by simp_all
    have l: "merge_data_set_loop ds 0 [] [] = Inr (recorded_slices 0 ds, map snd ds, ?N)"
      using merge_data_set_loop_eq [OF dd _ stackable_axes(1) [OF st], of "[]" 0 "[]"] by simp
    have c: "concatenate (map snd ds) = Inr (stacked (map snd ds))"
      using st by (rule concatenate_stackable)
    have n: "len_array (stacked (map snd ds)) = Inr ?N"
      by (simp add: len_array_def stacked_def)
    have iM: "fst ` set m \<inter> fst ` set (M @ [(t, stacked (map snd ds))]) = {}"
      using Cons.prems(1,2) p by auto
    have iS: "fst ` set m \<inter> fst ` set (S @ [(t, recorded_slices 0 ds)]) = {}"
      using Cons.prems(1,3) p by auto
    show ?thesis
      using Cons.IH [OF d iM iS a h] p Data_Sets l c n
      by (simp add: update_fresh [OF freshM] update_fresh [OF freshS])
  qed
qed

lemma map_of_split_dict_fresh: "t \<notin> fst ` set m \<Longrightarrow> map_of (split_dict m) t = None"
  using fst_split_dict [of m] by (auto simp add: map_of_eq_None_iff)

lemma split_loop_eq:
  "distinct (map fst m) \<Longrightarrow> fst ` set m \<inter> fst ` set acc = {} \<Longrightarrow>
   list_all (\<lambda>(tracer, v). is_dict_value v) m \<Longrightarrow>
   list_all (\<lambda>(tracer, v). has_stackable_data_sets v) m \<Longrightarrow>
   (\<forall>(t, v) \<in> set m. map_of S t =
        (case v of Array xs \<Rightarrow> None | Data_Sets ds \<Rightarrow> Some (recorded_slices 0 ds))) \<Longrightarrow>
   split_loop (merged_dict m) S acc = Inr (acc @ m)"
proof (induction m arbitrary: acc)
  case Nil
  then show ?case by simp
next
  case (Cons p m)
  obtain t v where p: "p = (t, v)" by (cases p)
  have fresh: "t \<notin> fst ` set acc" using Cons.prems(2) p by auto
  have d: "distinct (map fst m)" using Cons.prems(1) by simp
  have a: "list_all (\<lambda>(tracer, v). is_dict_value v) m" using Cons.prems(3) by simp
  have h: "list_all (\<lambda>(tracer, v). has_stackable_data_sets v) m" using Cons.prems(4) by simp
  have s: "\<forall>(t, v) \<in> set m. map_of S t =
        (case v of Array xs \<Rightarrow> None | Data_Sets ds \<Rightarrow> Some (recorded_slices 0 ds))"
    using Cons.prems(5) by simp
  have i: "fst ` set m \<inter> fst ` set (acc @ [(t, v)]) = {}"
    using Cons.prems(1,2) p by auto
  show ?case
  proof (cases v)
    case (Array xs)
    have "map_of S t = None" using Cons.prems(5) p Array by simp
    then show ?thesis
      using Cons.IH [OF d i a h s] p Array by (simp add: update_fresh [OF fresh])
  next
    case (Data_Sets ds)
    have dd: "distinct (map fst ds)" and st: "stackable (map snd ds)"
      using Cons.prems(3,4) p Data_Sets by simp_all
    have "map_of S t = Some (recorded_slices 0 ds)" using Cons.prems(5) p Data_Sets by simp
    then show ?thesis
      using Cons.IH [OF d i a h s] p Data_Sets split_data_set_eq [OF dd st]
      by (simp add: update_fresh [OF fresh])
  qed
qed

lemma map_of_split_dict:
  "distinct (map fst m) \<Longrightarrow>
   \<forall>(t, v) \<in> set m. map_of (split_dict m) t =
        (case v of Array xs \<Rightarrow> None | Data_Sets ds \<Rightarrow> Some (recorded_slices 0 ds))"
proof (induction m rule: split_dict.induct)
  case 1
  then show ?case by simp
next
  case (2 tracer v rest)
  have f: "tracer \<notin> fst ` set rest" using "2.prems" by auto
  have "map_of (split_dict rest) tracer = None" using f by (rule map_of_split_dict_fresh)
  then show ?case using 2 by auto
next
  case (3 tracer ds rest)
  have f: "tracer \<notin> fst ` set rest" using "3.prems" by auto
  have r: "\<forall>(t, v) \<in> set rest. t \<noteq> tracer" using f by force
  show ?case using 3 r by auto
qed

lemma round_trip:
  assumes "is_dict m" and "list_all (\<lambda>(tracer, v). has_stackable_data_sets v) m"
  shows "merge_data_sets m = Inr (merged_dict m, split_dict m)"
    and "split_data_sets (merged_dict m) (split_dict m) = Inr m"
proof -
  have d: "distinct (map fst m)" and a: "list_all (\<lambda>(tracer, v). is_dict_value v) m"
    using assms(1) by (simp_all add: is_dict_def)
  show "merge_data_sets m = Inr (merged_dict m, split_dict m)"
    using merge_loop_eq [OF d _ _ a assms(2), of "[]" "[]"] by (simp add: merge_data_sets_def)
  show "split_data_sets (merged_dict m) (split_dict m) = Inr m"
    using split_loop_eq [OF d _ a assms(2) map_of_split_dict [OF d], of "[]"]
    by (simp add: split_data_sets_def)
qed

lemma map_of_merged_dict:
  "distinct (map fst m) \<Longrightarrow> (t, v) \<in> set m \<Longrightarrow> map_of (merged_dict m) t = Some (merged_value v)"
proof (induction m rule: merged_dict.induct)
  case 1
  then show ?case by simp
next
  case (2 tracer w rest)
  show ?case
  proof (cases "(t, v) = (tracer, w)")
    case True
    then show ?thesis by simp
  next
    case False
    then have r: "(t, v) \<in> set rest" using "2.prems"(2) by auto
    then have "t \<in> fst ` set rest" by force
    then have "t \<noteq> tracer" using "2.prems"(1) by auto
    then show ?thesis using "2.IH" r "2.prems"(1) by simp
  qed
qed

lemma map_of_split_dict_array:
  assumes "distinct (map fst m)" and "(t, Array a) \<in> set m"
  shows "map_of (split_dict m) t = None"
  using map_of_split_dict [OF assms(1)] assms(2) by force

text \<open>
  Claim C6 as stated fails for mappings the merge cannot stack into one array: a tracer
  whose dictionary of data sets is empty (\<open>np.concatenate\<close> has nothing to concatenate),
  data sets whose shapes differ behind the first axis, data sets with different numbers
  of axes, and a zero-dimensional data set (it has no \<open>len\<close>).  The merge raises, so there
  is no merged result to split.
\<close>

theorem merge_split_counterexample:
  "is_dict [(''po4'', Data_Sets ([] :: (string \<times> real ndarray) list))]
   \<and> merge_data_sets [(''po4'', Data_Sets ([] :: (string \<times> real ndarray) list))]
       = Inl (ValueError ''need at least one array to concatenate'')
   \<and> is_dict [(''po4'', Data_Sets [(''WOA'', float64 [1, 2] [1, 2]),
                                     (''WOD'', float64 [1, 1] [3])])]
   \<and> valid_array (float64 [1, 2] [1, 2]) \<and> valid_array (float64 [1, 1] [3])
   \<and> merge_data_sets [(''po4'', Data_Sets [(''WOA'', float64 [1, 2] [1, 2]),
                                             (''WOD'', float64 [1, 1] [3])])]
       = Inl (ValueError
           ''all the input array dimensions except for the concatenation axis must match exactly'')
   \<and> is_dict [(''po4'', Data_Sets [(''WOA'', float64 [1, 4] [1, 2, 3, 4]),
                                     (''WOD'', float64 [0] [])])]
   \<and> valid_array (float64 [1, 4] [1, 2, 3, 4]) \<and> valid_array (float64 [0] [])
   \<and> merge_data_sets [(''po4'', Data_Sets [(''WOA'', float64 [1, 4] [1, 2, 3, 4]),
                                             (''WOD'', float64 [0] [])])]
       = Inl (ValueError ''all the input arrays must have same number of dimensions'')
   \<and> is_dict [(''po4'', Data_Sets [(''WOA'', float64 [] [1])])]
   \<and> valid_array (float64 [] [1])
   \<and> merge_data_sets [(''po4'', Data_Sets [(''WOA'', float64 [] [1])])] = Inl TypeError"
  by (simp add: is_dict_def merge_data_sets_def concatenate_def len_array_def float64_def
      valid_array_def)

text \<open>
  Claim C6, amended.  For a mapping of tracer names to arrays or to dictionaries of named
  arrays in which every such dictionary has at least one data set and its data sets have
  a first axis, one dtype and one shape behind the first axis, merging succeeds and
  splitting the merged result with the recorded slices gives the mapping back: the same
  tracers in the same order, for each the same data set names in the same order with the
  same arrays.  A tracer whose value is an array gets no slices and goes through both
  operations unchanged.
\<close>

theorem merge_split_round_trip:
  assumes "is_dict m" and "list_all (\<lambda>(tracer, v). has_stackable_data_sets v) m"
  shows "merge_data_sets m = Inr (merged_dict m, split_dict m)
       \<and> split_data_sets (merged_dict m) (split_dict m) = Inr m
       \<and> map fst (merged_dict m) = map fst m
       \<and> (\<forall>t a. (t, Array a) \<in> set m \<longrightarrow>
             map_of (merged_dict m) t = Some a \<and> map_of (split_dict m) t = None)"
proof -
  have d: "distinct (map fst m)" using assms(1) by (simp add: is_dict_def)
  have "map_of (merged_dict m) t = Some a \<and> map_of (split_dict m) t = None"
    if "(t, Array a) \<in> set m" for t a
    using map_of_merged_dict [OF d that] map_of_split_dict_array [OF d that] by simp
  then show ?thesis
    using round_trip [OF assms] fst_merged_dict [of m] by blast
qed

text \<open>
  Two data sets of shapes \<open>(2, 2)\<close> and \<open>(1, 2)\<close> for one tracer and an array for another:
  the merged array has the shape \<open>(3, 2)\<close>, the slices are \<open>0:2\<close> and \<open>2:3\<close>, and the split
  gives the input back.
\<close>

theorem merge_split_round_trip_witness:
  "is_dict [(''po4'', Data_Sets [(''WOA'', float64 [2, 2] [1, 2, 3, 4]),
                                  (''WOD'', float64 [1, 2] [5, 6])]),
            (''dop'', Array (float64 [2] [7, 8]))]
   \<and> merge_data_sets [(''po4'', Data_Sets [(''WOA'', float64 [2, 2] [1, 2, 3, 4]),
                                             (''WOD'', float64 [1, 2] [5, 6])]),
                       (''dop'', Array (float64 [2] [7, 8]))]
       = Inr ([(''po4'', float64 [3, 2] [1, 2, 3, 4, 5, 6]), (''dop'', float64 [2] [7, 8])],
              [(''po4'', [(''WOA'', (0, 2)), (''WOD'', (2, 3))])])
   \<and> split_data_sets [(''po4'', float64 [3, 2] [1, 2, 3, 4, 5, 6]), (''dop'', float64 [2] [7, 8])]
         [(''po4'', [(''WOA'', (0, 2)), (''WOD'', (2, 3))])]
       = Inr [(''po4'', Data_Sets [(''WOA'', float64 [2, 2] [1, 2, 3, 4]),
                                   (''WOD'', float64 [1, 2] [5, 6])]),
              (''dop'', Array (float64 [2] [7, 8]))]"
proof -
  let ?m = "[(''po4'', Data_Sets [(''WOA'', float64 [2, 2] [1, 2, 3, 4]),
                                  (''WOD'', float64 [1, 2] [5, 6])]),
             (''dop'', Array (float64 [2] [7, 8]))]"
  have d: "is_dict ?m" by (simp add: is_dict_def)
  have h: "list_all (\<lambda>(tracer, v). has_stackable_data_sets v) ?m"
    by (simp add: stackable_def valid_array_def float64_def)
  have m: "merged_dict ?m
      = [(''po4'', float64 [3, 2] [1, 2, 3, 4, 5, 6]), (''dop'', float64 [2] [7, 8])]"
    by (simp add: stacked_def float64_def)
  have s: "split_dict ?m = [(''po4'', [(''WOA'', (0, 2)), (''WOD'', (2, 3))])]"
    by (simp add: float64_def)
  show ?thesis
    using merge_split_round_trip [OF d h, THEN conjunct1]
      merge_split_round_trip [OF d h, THEN conjunct2, THEN conjunct1] d
    unfolding m s by simp
qed

end
